theory Spec2Isabelle
  imports Main
begin

section \<open>Schema bootstrap: \<open>ensureD1Schema\<close>\<close>

text \<open>
  The bootstrap module of \<open>src/lib/db/setup.ts\<close> (second document of the file) holds the
  constant list \<open>MIGRATION_STATEMENTS\<close>, the module variable \<open>bootstrapPromise\<close>, the guard
  \<open>isD1DatabaseLike\<close> and the asynchronous function \<open>ensureD1Schema\<close>.

  JavaScript runs one job at a time, so the asynchronous behaviour is an interleaving of two
  kinds of event: a caller invokes \<open>ensureD1Schema\<close> (which runs synchronously up to its first
  suspension), and the \<open>run()\<close> promise the bootstrap loop is suspended on settles (after which
  the loop resumes up to the next suspension).  A promise is an address in a store of promise
  states; callers suspended on a promise are recorded with its address.
\<close>

definition MIGRATION_STATEMENTS :: "string list" where
  "MIGRATION_STATEMENTS =
   [''CREATE TABLE IF NOT EXISTS users (\<newline>    id INTEGER PRIMARY KEY AUTOINCREMENT NOT NULL,\<newline>    name TEXT(100),\<newline>    email TEXT(255) NOT NULL,\<newline>    password_hash TEXT NOT NULL,\<newline>    role TEXT(20) DEFAULT 'member' NOT NULL,\<newline>    created_at INTEGER DEFAULT (unixepoch()) NOT NULL,\<newline>    updated_at INTEGER DEFAULT (unixepoch()) NOT NULL,\<newline>    deleted_at INTEGER\<newline>  );'',
    ''CREATE TABLE IF NOT EXISTS teams (\<newline>    id INTEGER PRIMARY KEY AUTOINCREMENT NOT NULL,\<newline>    name TEXT(100) NOT NULL,\<newline>    created_at INTEGER DEFAULT (unixepoch()) NOT NULL,\<newline>    updated_at INTEGER DEFAULT (unixepoch()) NOT NULL,\<newline>    stripe_customer_id TEXT,\<newline>    stripe_subscription_id TEXT,\<newline>    stripe_product_id TEXT,\<newline>    plan_name TEXT(50),\<newline>    subscription_status TEXT(20)\<newline>  );'',
    ''CREATE UNIQUE INDEX IF NOT EXISTS teams_stripe_customer_id_unique ON teams (stripe_customer_id);'',
    ''CREATE UNIQUE INDEX IF NOT EXISTS teams_stripe_subscription_id_unique ON teams (stripe_subscription_id);'',
    ''CREATE TABLE IF NOT EXISTS team_members (\<newline>    id INTEGER PRIMARY KEY AUTOINCREMENT NOT NULL,\<newline>    user_id INTEGER NOT NULL,\<newline>    team_id INTEGER NOT NULL,\<newline>    role TEXT(50) NOT NULL,\<newline>    joined_at INTEGER DEFAULT (unixepoch()) NOT NULL,\<newline>    FOREIGN KEY (user_id) REFERENCES users(id) ON UPDATE NO ACTION ON DELETE NO ACTION,\<newline>    FOREIGN KEY (team_id) REFERENCES teams(id) ON UPDATE NO ACTION ON DELETE NO ACTION\<newline>  );'',
    ''CREATE TABLE IF NOT EXISTS invitations (\<newline>    id INTEGER PRIMARY KEY AUTOINCREMENT NOT NULL,\<newline>    team_id INTEGER NOT NULL,\<newline>    email TEXT(255) NOT NULL,\<newline>    role TEXT(50) NOT NULL,\<newline>    invited_by INTEGER NOT NULL,\<newline>    invited_at INTEGER DEFAULT (unixepoch()) NOT NULL,\<newline>    status TEXT(20) DEFAULT 'pending' NOT NULL,\<newline>    FOREIGN KEY (team_id) REFERENCES teams(id) ON UPDATE NO ACTION ON DELETE NO ACTION,\<newline>    FOREIGN KEY (invited_by) REFERENCES users(id) ON UPDATE NO ACTION ON DELETE NO ACTION\<newline>  );'',
    ''CREATE TABLE IF NOT EXISTS activity_logs (\<newline>    id INTEGER PRIMARY KEY AUTOINCREMENT NOT NULL,\<newline>    team_id INTEGER NOT NULL,\<newline>    user_id INTEGER,\<newline>    action TEXT NOT NULL,\<newline>    timestamp INTEGER DEFAULT (unixepoch()) NOT NULL,\<newline>    ip_address TEXT(45),\<newline>    FOREIGN KEY (team_id) REFERENCES teams(id) ON UPDATE NO ACTION ON DELETE NO ACTION,\<newline>    FOREIGN KEY (user_id) REFERENCES users(id) ON UPDATE NO ACTION ON DELETE NO ACTION\<newline>  );'',
    ''CREATE UNIQUE INDEX IF NOT EXISTS users_email_unique ON users (email);'']"

text \<open>
  The argument of \<open>ensureD1Schema\<close> has type \<open>unknown\<close>.  What the guard inspects is the
  \<open>typeof\<close> of the value, whether it is \<open>null\<close>, and the \<open>typeof\<close> of its \<open>prepare\<close> property; an
  object also has an identity, used to record which handle a statement was issued to.
\<close>

datatype candidate =
    NonObject
  | NullValue
  | ObjectValue nat bool

fun isD1DatabaseLike :: "candidate \<Rightarrow> bool" where
  "isD1DatabaseLike NonObject = False"
| "isD1DatabaseLike NullValue = False"
| "isD1DatabaseLike (ObjectValue h prepare_is_function) = prepare_is_function"

fun handle_of :: "candidate \<Rightarrow> nat" where
  "handle_of (ObjectValue h p) = h"
| "handle_of NonObject = 0"
| "handle_of NullValue = 0"

datatype js_error =
    BindingUnavailable
  | RunError nat

datatype outcome = Fulfilled | Rejected js_error

datatype promise = Pending | Settled outcome

type_synonym caller = nat

record bootstrap =
  bootstrapPromise :: "nat option"
  promises :: "nat \<Rightarrow> promise"
  attempts :: nat
  inflight :: "(nat \<times> nat \<times> string list) option"
  issued :: "(nat \<times> string) list"
  awaiting :: "(caller \<times> nat) list"
  finished :: "(caller \<times> outcome) list"

text \<open>
  \<open>bootstrapPromise\<close> is the module variable (\<open>None\<close> is \<open>null\<close>); \<open>attempts\<close> is the next free
  promise address, that is the number of bootstrap attempts started so far; \<open>inflight\<close> is the
  suspended bootstrap loop: its promise, the handle captured by the closure and the statements
  of the \<open>for\<close> loop not yet reached; \<open>issued\<close> logs every \<open>db.prepare(statement).run()\<close> in the
  order of the calls; \<open>awaiting\<close> are the callers suspended at \<open>await bootstrapPromise\<close>;
  \<open>finished\<close> are the calls that have returned or thrown.
\<close>

definition initial :: bootstrap where
  "initial = \<lparr> bootstrapPromise = None, promises = (\<lambda>_. Pending), attempts = 0,
     inflight = None, issued = [], awaiting = [], finished = [] \<rparr>"

definition settle :: "nat \<Rightarrow> outcome \<Rightarrow> bootstrap \<Rightarrow> bootstrap" where
  "settle k out s =
     s\<lparr> promises := (promises s)(k := Settled out),
        finished := finished s @ map (\<lambda>w. (fst w, out)) (filter (\<lambda>w. snd w = k) (awaiting s)),
        awaiting := filter (\<lambda>w. snd w \<noteq> k) (awaiting s) \<rparr>"

fun resume_loop :: "nat \<Rightarrow> nat \<Rightarrow> string list \<Rightarrow> bootstrap \<Rightarrow> bootstrap" where
  "resume_loop k db [] s = settle k Fulfilled (s\<lparr> inflight := None \<rparr>)"
| "resume_loop k db (statement # rest) s =
     s\<lparr> issued := issued s @ [(db, statement)], inflight := Some (k, db, rest) \<rparr>"

definition await_promise :: "caller \<Rightarrow> nat \<Rightarrow> bootstrap \<Rightarrow> bootstrap" where
  "await_promise c k s =
     (case promises s k of
        Pending \<Rightarrow> s\<lparr> awaiting := awaiting s @ [(c, k)] \<rparr>
      | Settled out \<Rightarrow> s\<lparr> finished := finished s @ [(c, out)] \<rparr>)"

definition ensureD1Schema :: "caller \<Rightarrow> candidate \<Rightarrow> bootstrap \<Rightarrow> bootstrap" where
  "ensureD1Schema c db s =
     (if \<not> isD1DatabaseLike db
      then s\<lparr> finished := finished s @ [(c, Rejected BindingUnavailable)] \<rparr>
      else (case bootstrapPromise s of
              Some k \<Rightarrow> await_promise c k s
            | None \<Rightarrow>
                let k = attempts s in
                await_promise c k
                  (resume_loop k (handle_of db) MIGRATION_STATEMENTS
                     (s\<lparr> bootstrapPromise := Some k, attempts := Suc k \<rparr>))))"

definition run_settles :: "js_error option \<Rightarrow> bootstrap \<Rightarrow> bootstrap" where
  "run_settles r s =
     (case inflight s of
        None \<Rightarrow> s
      | Some (k, db, rest) \<Rightarrow>
          (case r of
             None \<Rightarrow> resume_loop k db rest s
           | Some e \<Rightarrow> settle k (Rejected e) (s\<lparr> bootstrapPromise := None, inflight := None \<rparr>)))"

datatype event = Call caller candidate | RunSettles "js_error option"

fun step :: "bootstrap \<Rightarrow> event \<Rightarrow> bootstrap" where
  "step s (Call c db) = ensureD1Schema c db s"
| "step s (RunSettles r) = run_settles r s"

definition run :: "event list \<Rightarrow> bootstrap \<Rightarrow> bootstrap" where
  "run evs s = foldl step s evs"






section \<open>JavaScript strings and the regular expressions of the setup script\<close>

text \<open>
  A JavaScript string is a sequence of UTF-16 code units.  The script tests for the box-drawing
  character U+2502 and trims by the Unicode white-space set, so a code unit is modelled by its
  number rather than by an 8-bit \<open>char\<close>.  \<open>lit\<close> turns an ASCII literal of the source into
  such a string.
\<close>

type_synonym jsstring = "nat list"

definition lit :: "string \<Rightarrow> jsstring" where
  "lit s = map of_char s"

text \<open>Character classes as the regular expressions of the source write them.\<close>

definition is_digit :: "nat \<Rightarrow> bool" where
  "is_digit c = (48 \<le> c \<and> c \<le> 57)"

definition is_lower :: "nat \<Rightarrow> bool" where
  "is_lower c = (97 \<le> c \<and> c \<le> 122)"

definition is_upper :: "nat \<Rightarrow> bool" where
  "is_upper c = (65 \<le> c \<and> c \<le> 90)"

text \<open>\<open>[a-zA-Z0-9]\<close>\<close>

definition is_alnum :: "nat \<Rightarrow> bool" where
  "is_alnum c = (is_lower c \<or> is_upper c \<or> is_digit c)"

text \<open>\<open>[\w-]\<close>: \<open>\w\<close> is \<open>[A-Za-z0-9_]\<close>.\<close>

definition is_word_or_dash :: "nat \<Rightarrow> bool" where
  "is_word_or_dash c = (is_alnum c \<or> c = 95 \<or> c = 45)"

text \<open>
  \<open>[a-f0-9]\<close> and \<open>[0-9a-f]\<close> under the \<open>i\<close> flag.  Without the \<open>u\<close> flag, case folding maps a
  code unit to its upper case unless that would turn a non-ASCII unit into an ASCII one, so
  only the ASCII letters of either case match.
\<close>

definition is_hex :: "nat \<Rightarrow> bool" where
  "is_hex c = (is_digit c \<or> (97 \<le> c \<and> c \<le> 102) \<or> (65 \<le> c \<and> c \<le> 70))"

text \<open>\<open>[0-9a-f-]\<close> under the \<open>i\<close> flag.\<close>

definition is_hex_or_dash :: "nat \<Rightarrow> bool" where
  "is_hex_or_dash c = (is_hex c \<or> c = 45)"

text \<open>Line terminators: what \<open>.\<close> does not match.\<close>

definition is_line_terminator :: "nat \<Rightarrow> bool" where
  "is_line_terminator c = (c = 10 \<or> c = 13 \<or> c = 8232 \<or> c = 8233)"

text \<open>\<open>\s\<close>, which is also what \<open>trim()\<close> strips: white space and line terminators.\<close>

definition is_space :: "nat \<Rightarrow> bool" where
  "is_space c =
     (c = 9 \<or> c = 11 \<or> c = 12 \<or> c = 32 \<or> c = 160 \<or> c = 5760 \<or> (8192 \<le> c \<and> c \<le> 8202)
      \<or> c = 8239 \<or> c = 8287 \<or> c = 12288 \<or> c = 65279 \<or> is_line_terminator c)"

definition trim :: "jsstring \<Rightarrow> jsstring" where
  "trim s = rev (dropWhile is_space (rev (dropWhile is_space s)))"

text \<open>Equality of two code units under the \<open>i\<close> flag, for a literal character of a pattern.\<close>

definition upper_of :: "nat \<Rightarrow> nat" where
  "upper_of c = (if is_lower c then c - 32 else c)"

definition eq_ci :: "nat \<Rightarrow> nat \<Rightarrow> bool" where
  "eq_ci a b = (upper_of a = upper_of b)"

text \<open>
  \<open>starts_with_ci p s\<close> returns what follows when \<open>s\<close> begins with the literal \<open>p\<close>, compared
  case-insensitively; \<open>starts_with\<close> compares exactly.
\<close>

definition starts_with :: "jsstring \<Rightarrow> jsstring \<Rightarrow> jsstring option" where
  "starts_with p s = (if take (length p) s = p then Some (drop (length p) s) else None)"

definition starts_with_ci :: "jsstring \<Rightarrow> jsstring \<Rightarrow> jsstring option" where
  "starts_with_ci p s =
     (if length p \<le> length s \<and> list_all2 eq_ci p (take (length p) s)
      then Some (drop (length p) s) else None)"

text \<open>
  A regular expression without the \<open>g\<close> flag returns the leftmost match: the matcher is tried
  at every position from the start of the string on, the position after the last code unit
  included.  \<open>at\<close> is the matcher anchored at the start of its argument.
\<close>

fun search_first :: "(jsstring \<Rightarrow> 'a option) \<Rightarrow> jsstring \<Rightarrow> 'a option" where
  "search_first at [] = at []"
| "search_first at (c # cs) =
     (case at (c # cs) of Some m \<Rightarrow> Some m | None \<Rightarrow> search_first at cs)"





text \<open>Lines written to the console; the messages are constants of the source.\<close>

datatype console = Log string | Warn string | ConsoleError string

text \<open>
  What a function of the script throws: the rejection of \<open>execAsync\<close>, which carries the
  captured standard output and standard error, an \<open>Error\<close> made by the script with its message,
  or a \<open>TypeError\<close> of the runtime.
\<close>

datatype js_exception =
    ExecFailure jsstring jsstring
  | ScriptError string
  | TypeError string

section \<open>Webhook creation and the configuration patcher\<close>

text \<open>
  \<open>createStripeWebhook\<close> awaits \<open>execAsync('stripe listen --print-secret')\<close>, whose outcome is
  the argument \<open>r\<close>: the rejection, or standard output and standard error.  \<open>whsec_at\<close> is
  \<open>/whsec_[a-zA-Z0-9]+/\<close> anchored at the start of its argument; the greedy \<open>+\<close> takes every
  alphanumeric code unit that follows.  \<open>on_windows\<close> is \<open>os.platform() === 'win32'\<close>.
\<close>

definition whsec_at :: "jsstring \<Rightarrow> jsstring option" where
  "whsec_at s =
     (case starts_with (lit ''whsec_'') s of
        None \<Rightarrow> None
      | Some rest \<Rightarrow>
          (if takeWhile is_alnum rest = [] then None
           else Some (lit ''whsec_'' @ takeWhile is_alnum rest)))"

definition createStripeWebhook ::
  "bool \<Rightarrow> js_exception + jsstring \<times> jsstring \<Rightarrow> console list \<times> (js_exception + jsstring)" where
  "createStripeWebhook on_windows r =
     (let attempt =
        (case r of
           Inl e \<Rightarrow> ([], Inl e)
         | Inr (stdout, stderr) \<Rightarrow>
             (case search_first whsec_at stdout of
                None \<Rightarrow> ([], Inl (ScriptError ''Failed to extract Stripe webhook secret''))
              | Some m \<Rightarrow> ([Log ''Stripe webhook created.''], Inr m)))
      in case snd attempt of
           Inr m \<Rightarrow> (Log ''Step 5: Creating Stripe webhook...'' # fst attempt, Inr m)
         | Inl error \<Rightarrow>
             (Log ''Step 5: Creating Stripe webhook...'' # fst attempt
                @ [ConsoleError ''Failed to create Stripe webhook. Check your Stripe CLI installation and permissions.'']
                @ (if on_windows
                   then [Log ''Note: On Windows, you may need to run this script as an administrator.'']
                   else []),
              Inl error))"

text \<open>Vocabulary for the property: a text of the shape \<open>whsec_[a-zA-Z0-9]+\<close>.\<close>

definition is_whsec_token :: "jsstring \<Rightarrow> bool" where
  "is_whsec_token t =
     (case starts_with (lit ''whsec_'') t of
        None \<Rightarrow> False
      | Some body \<Rightarrow> body \<noteq> [] \<and> list_all is_alnum body)"







section \<open>The seed routine\<close>

text \<open>
  \<open>seed\<close> (\<open>src/unnamed/part_001\<close>) talks to two remote services: the D1 database, through
  \<open>remoteCallback\<close> and the query builder, and the payment provider.  Both are outside the
  repository; they are modelled by a store holding the rows of the three tables the routine
  touches, the statements of the schema applied so far, and the provider's products and
  prices.  The columns are those of \<open>MIGRATION_STATEMENTS\<close> that the routine sets or reads.
  A query on a table that has not been created fails, and so does an insertion that breaks the
  unique index on \<open>users.email\<close>; an integer primary key is the next value of the table's
  sequence.  Console output is not modelled.
\<close>

record user_row =
  user_id :: nat
  user_email :: string
  user_password_hash :: string
  user_role :: string

record team_row =
  team_id :: nat
  team_name :: string

record member_row =
  member_id :: nat
  member_user_id :: nat
  member_team_id :: nat
  member_role :: string

record product =
  product_id :: nat
  product_name :: string
  product_description :: string

record price =
  price_id :: nat
  price_product :: nat
  unit_amount :: nat
  currency :: string
  recurring_interval :: string
  trial_period_days :: nat

record store =
  applied :: "string list"
  users :: "user_row list"
  teams :: "team_row list"
  teamMembers :: "member_row list"
  products :: "product list"
  prices :: "price list"

definition empty_store :: store where
  "empty_store = \<lparr> applied = [], users = [], teams = [], teamMembers = [], products = [],
     prices = [] \<rparr>"

text \<open>
  A remote operation runs on the store and either throws or returns; what it has changed
  before it throws stays changed.
\<close>

type_synonym 'a remote = "store \<Rightarrow> (js_exception + 'a) \<times> store"

definition returns :: "'a \<Rightarrow> 'a remote" where
  "returns x st = (Inr x, st)"

definition throws :: "js_exception \<Rightarrow> 'a remote" where
  "throws e st = (Inl e, st)"

definition and_then :: "'a remote \<Rightarrow> ('a \<Rightarrow> 'b remote) \<Rightarrow> 'b remote" where
  "and_then m f st = (case m st of (Inl e, st') \<Rightarrow> (Inl e, st') | (Inr x, st') \<Rightarrow> f x st')"

definition BOOTSTRAP_STATEMENTS :: "string list" where
  "BOOTSTRAP_STATEMENTS = MIGRATION_STATEMENTS"

definition table_exists :: "string \<Rightarrow> store \<Rightarrow> bool" where
  "table_exists name st =
     list_ex (\<lambda>statement.
        take (length (''CREATE TABLE IF NOT EXISTS '' @ name @ '' (''))  statement
          = ''CREATE TABLE IF NOT EXISTS '' @ name @ '' ('') (applied st)"

definition next_id :: "nat list \<Rightarrow> nat" where
  "next_id ids = Suc (fold max ids 0)"

definition remoteCallback :: "string \<Rightarrow> unit remote" where
  "remoteCallback statement st = (Inr (), st\<lparr> applied := applied st @ [statement] \<rparr>)"

definition select_user :: "string \<Rightarrow> user_row option remote" where
  "select_user email st =
     (if table_exists ''users'' st
      then (Inr (find (\<lambda>u. user_email u = email) (users st)), st)
      else (Inl (ScriptError ''no such table: users''), st))"

definition insert_user :: "string \<Rightarrow> string \<Rightarrow> string \<Rightarrow> unit remote" where
  "insert_user email passwordHash role st =
     (if \<not> table_exists ''users'' st then (Inl (ScriptError ''no such table: users''), st)
      else if ''CREATE UNIQUE INDEX IF NOT EXISTS users_email_unique ON users (email);''
                \<in> set (applied st) \<and> list_ex (\<lambda>u. user_email u = email) (users st)
      then (Inl (ScriptError ''UNIQUE constraint failed: users.email''), st)
      else (Inr (), st\<lparr> users := users st @
              [\<lparr> user_id = next_id (map user_id (users st)), user_email = email,
                 user_password_hash = passwordHash, user_role = role \<rparr>] \<rparr>))"

definition select_team :: "string \<Rightarrow> team_row option remote" where
  "select_team name st =
     (if table_exists ''teams'' st
      then (Inr (find (\<lambda>t. team_name t = name) (teams st)), st)
      else (Inl (ScriptError ''no such table: teams''), st))"

definition insert_team :: "string \<Rightarrow> unit remote" where
  "insert_team name st =
     (if \<not> table_exists ''teams'' st then (Inl (ScriptError ''no such table: teams''), st)
      else (Inr (), st\<lparr> teams := teams st @
              [\<lparr> team_id = next_id (map team_id (teams st)), team_name = name \<rparr>] \<rparr>))"

definition select_membership :: "nat \<Rightarrow> nat \<Rightarrow> member_row option remote" where
  "select_membership teamId userId st =
     (if table_exists ''team_members'' st
      then (Inr (find (\<lambda>m. member_team_id m = teamId \<and> member_user_id m = userId)
                    (teamMembers st)), st)
      else (Inl (ScriptError ''no such table: team_members''), st))"

definition insert_membership :: "nat \<Rightarrow> nat \<Rightarrow> string \<Rightarrow> unit remote" where
  "insert_membership teamId userId role st =
     (if \<not> table_exists ''team_members'' st
      then (Inl (ScriptError ''no such table: team_members''), st)
      else (Inr (), st\<lparr> teamMembers := teamMembers st @
              [\<lparr> member_id = next_id (map member_id (teamMembers st)), member_user_id = userId,
                 member_team_id = teamId, member_role = role \<rparr>] \<rparr>))"

definition products_create :: "string \<Rightarrow> string \<Rightarrow> product remote" where
  "products_create name description st =
     (let p = \<lparr> product_id = next_id (map product_id (products st)), product_name = name,
                product_description = description \<rparr>
      in (Inr p, st\<lparr> products := products st @ [p] \<rparr>))"

definition prices_create :: "nat \<Rightarrow> nat \<Rightarrow> string \<Rightarrow> string \<Rightarrow> nat \<Rightarrow> unit remote" where
  "prices_create product_ref amount cur interval trial st =
     (Inr (), st\<lparr> prices := prices st @
        [\<lparr> price_id = next_id (map price_id (prices st)), price_product = product_ref,
           unit_amount = amount, currency = cur, recurring_interval = interval,
           trial_period_days = trial \<rparr>] \<rparr>)"

definition createStripeProducts :: "unit remote" where
  "createStripeProducts =
     and_then (products_create ''Base'' ''Base subscription plan'') (\<lambda>baseProduct.
     and_then (prices_create (product_id baseProduct) 800 ''usd'' ''month'' 7) (\<lambda>_.
     and_then (products_create ''Plus'' ''Plus subscription plan'') (\<lambda>plusProduct.
     prices_create (product_id plusProduct) 1200 ''usd'' ''month'' 7)))"

fun run_statements :: "string list \<Rightarrow> unit remote" where
  "run_statements [] = returns ()"
| "run_statements (statement # rest) =
     and_then (remoteCallback statement) (\<lambda>_. run_statements rest)"

text \<open>
  \<open>passwordHash\<close> is the result of \<open>hashPassword('admin123')\<close>, a function of the repository
  that is not among the source files.
\<close>

definition seed :: "string \<Rightarrow> unit remote" where
  "seed passwordHash =
     and_then (run_statements BOOTSTRAP_STATEMENTS) (\<lambda>_.
     and_then (select_user ''test@test.com'') (\<lambda>user.
     and_then (case user of
                 Some u \<Rightarrow> returns (Some u)
               | None \<Rightarrow>
                   and_then (insert_user ''test@test.com'' passwordHash ''owner'') (\<lambda>_.
                   select_user ''test@test.com'')) (\<lambda>user.
     case user of
       None \<Rightarrow> throws (ScriptError ''Failed to retrieve the seeded user.'')
     | Some user \<Rightarrow>
     and_then (select_team ''Test Team'') (\<lambda>team.
     and_then (case team of
                 Some t \<Rightarrow> returns (Some t)
               | None \<Rightarrow>
                   and_then (insert_team ''Test Team'') (\<lambda>_. select_team ''Test Team'')) (\<lambda>team.
     case team of
       None \<Rightarrow> throws (ScriptError ''Failed to retrieve the seeded team.'')
     | Some team \<Rightarrow>
     and_then (select_membership (team_id team) (user_id user)) (\<lambda>existingMembership.
     and_then (case existingMembership of
                 Some m \<Rightarrow> returns ()
               | None \<Rightarrow> insert_membership (team_id team) (user_id user) ''owner'') (\<lambda>_.
     createStripeProducts)))))))"

text \<open>Vocabulary for the property: every product of the list has exactly one price.\<close>

definition one_price_each :: "store \<Rightarrow> bool" where
  "one_price_each st =
     list_all (\<lambda>p. length (filter (\<lambda>q. price_product q = product_id p) (prices st)) = 1)
       (products st)"

text \<open>
  Vocabulary for the proofs: the default user, the default team and a membership linking
  the two are in the store.
\<close>

definition seeded :: "store \<Rightarrow> bool" where
  "seeded st =
     (case find (\<lambda>u. user_email u = ''test@test.com'') (users st) of
        None \<Rightarrow> False
      | Some u \<Rightarrow>
          (case find (\<lambda>t. team_name t = ''Test Team'') (teams st) of
             None \<Rightarrow> False
           | Some t \<Rightarrow>
               find (\<lambda>m. member_team_id m = team_id t \<and> member_user_id m = user_id u)
                 (teamMembers st) \<noteq> None))"

section \<open>Text extraction: \<open>stripAnsi\<close> and \<open>parseJsonFromOutput\<close>\<close>

text \<open>
  \<open>stripAnsi\<close> removes every match of \<open>/\u001b\[[0-9;?]*[ -\/]*[@-~]/g\<close>.  \<open>ansi_at\<close> is the
  pattern anchored at the start of its argument and returns what follows the match.  The
  three character classes are pairwise disjoint, so the greedy stars never give anything
  back.
\<close>

definition is_csi_parameter :: "nat \<Rightarrow> bool" where
  "is_csi_parameter c = (is_digit c \<or> c = 59 \<or> c = 63)"

definition is_csi_intermediate :: "nat \<Rightarrow> bool" where
  "is_csi_intermediate c = (32 \<le> c \<and> c \<le> 47)"

definition is_csi_final :: "nat \<Rightarrow> bool" where
  "is_csi_final c = (64 \<le> c \<and> c \<le> 126)"

definition ansi_at :: "jsstring \<Rightarrow> jsstring option" where
  "ansi_at s =
     (case starts_with [27, 91] s of
        None \<Rightarrow> None
      | Some r \<Rightarrow>
          (case dropWhile is_csi_intermediate (dropWhile is_csi_parameter r) of
             [] \<Rightarrow> None
           | f # rest \<Rightarrow> if is_csi_final f then Some rest else None))"

lemma ansi_at_shorter: "ansi_at s = Some rest \<Longrightarrow> length rest < length s"
proof -
  assume a: "ansi_at s = Some rest"
  then obtain r where r: "starts_with [27, 91] s = Some r"
    by (auto simp: ansi_at_def split: option.splits)
  then have "take (length [27, 91 :: nat]) s = [27, 91]" "r = drop (length [27, 91 :: nat]) s"
    by (auto simp add: starts_with_def split: if_splits)
  then have "s = [27, 91] @ r" by (metis append_take_drop_id)
  then have s: "length s = length r + 2" by simp
  from a r obtain f where
    "dropWhile is_csi_intermediate (dropWhile is_csi_parameter r) = f # rest"
    by (auto simp: ansi_at_def split: list.splits if_splits)
  then have "length (f # rest) \<le> length r"
    by (metis length_dropWhile_le order_trans)
  with s show ?thesis by simp
qed

function stripAnsi :: "jsstring \<Rightarrow> jsstring" where
  "stripAnsi [] = []"
| "stripAnsi (c # cs) =
     (case ansi_at (c # cs) of
        Some rest \<Rightarrow> stripAnsi rest
      | None \<Rightarrow> c # stripAnsi cs)"
  by pat_completeness auto
termination
  by (relation "measure length") (auto dest: ansi_at_shorter)

text \<open>
  The values \<open>JSON.parse\<close> returns.  A number is kept as the decimal it was written as,
  mantissa and power of ten; \<open>undefined\<close>, which is not a JSON value, is \<open>None\<close> where a
  property may be absent.  The members of an object are in the order of the text, and a
  repeated key takes its last value.
\<close>

datatype json =
    JNull
  | JBool bool
  | JNum int int
  | JStr jsstring
  | JArr "json list"
  | JObj "(jsstring \<times> json) list"

text \<open>
  \<open>JSON.parse\<close> by recursive descent.  The recursion is on a fuel argument; every call
  that spends fuel has consumed input, and \<open>JSON_parse\<close> supplies more fuel than the text
  can use.
\<close>

datatype 'a parsed = OutOfFuel | Malformed | Parsed 'a jsstring

definition is_json_ws :: "nat \<Rightarrow> bool" where
  "is_json_ws c = (c = 32 \<or> c = 9 \<or> c = 10 \<or> c = 13)"

definition skip_ws :: "jsstring \<Rightarrow> jsstring" where
  "skip_ws s = dropWhile is_json_ws s"

definition hex_value :: "nat \<Rightarrow> nat" where
  "hex_value c = (if is_digit c then c - 48 else if 97 \<le> c then c - 87 else c - 55)"

definition escape_char :: "nat \<Rightarrow> nat option" where
  "escape_char e =
     (if e = 34 then Some 34 else if e = 92 then Some 92 else if e = 47 then Some 47
      else if e = 98 then Some 8 else if e = 102 then Some 12 else if e = 110 then Some 10
      else if e = 114 then Some 13 else if e = 116 then Some 9 else None)"

fun parse_string_body :: "jsstring \<Rightarrow> (jsstring \<times> jsstring) option" where
  "parse_string_body [] = None"
| "parse_string_body (c # cs) =
     (if c = 34 then Some ([], cs)
      else if c = 92 then
        (case cs of
           [] \<Rightarrow> None
         | e # r \<Rightarrow>
             if e = 117 then
               (case r of
                  h1 # h2 # h3 # h4 # r' \<Rightarrow>
                    if is_hex h1 \<and> is_hex h2 \<and> is_hex h3 \<and> is_hex h4
                    then map_option
                           (\<lambda>sr. ((4096 * hex_value h1 + 256 * hex_value h2 + 16 * hex_value h3
                                    + hex_value h4) # fst sr, snd sr))
                           (parse_string_body r')
                    else None
                | _ \<Rightarrow> None)
             else
               (case escape_char e of
                  None \<Rightarrow> None
                | Some x \<Rightarrow> map_option (\<lambda>sr. (x # fst sr, snd sr)) (parse_string_body r)))
      else if c < 32 then None
      else map_option (\<lambda>sr. (c # fst sr, snd sr)) (parse_string_body cs))"

definition digits_value :: "jsstring \<Rightarrow> int" where
  "digits_value ds = foldl (\<lambda>a d. 10 * a + int (d - 48)) 0 ds"

text \<open>
  The number grammar: an optional minus, \<open>0\<close> or a digit from 1 to 9 followed by digits, an
  optional fraction with at least one digit, an optional exponent with at least one digit.
  Each part returns what it read and the rest of the text, or \<open>None\<close> when it is malformed.
\<close>

definition number_sign :: "jsstring \<Rightarrow> bool \<times> jsstring" where
  "number_sign s = (case s of [] \<Rightarrow> (False, []) | c # cs \<Rightarrow> if c = 45 then (True, cs) else (False, s))"

definition number_integer :: "jsstring \<Rightarrow> (jsstring \<times> jsstring) option" where
  "number_integer s =
     (case s of
        [] \<Rightarrow> None
      | c # cs \<Rightarrow>
          if c = 48 then Some ([48], cs)
          else if is_digit c then Some (takeWhile is_digit s, dropWhile is_digit s)
          else None)"

definition number_fraction :: "jsstring \<Rightarrow> (jsstring \<times> jsstring) option" where
  "number_fraction s =
     (case s of
        [] \<Rightarrow> Some ([], [])
      | c # cs \<Rightarrow>
          if c = 46 then
            (if takeWhile is_digit cs = [] then None
             else Some (takeWhile is_digit cs, dropWhile is_digit cs))
          else Some ([], s))"

definition number_exponent :: "jsstring \<Rightarrow> (int \<times> jsstring) option" where
  "number_exponent s =
     (case s of
        [] \<Rightarrow> Some (0, [])
      | c # cs \<Rightarrow>
          if c = 101 \<or> c = 69 then
            (let negative = (cs \<noteq> [] \<and> hd cs = 45);
                 ds = (if cs \<noteq> [] \<and> (hd cs = 45 \<or> hd cs = 43) then tl cs else cs)
             in if takeWhile is_digit ds = [] then None
                else Some (if negative then - digits_value (takeWhile is_digit ds)
                           else digits_value (takeWhile is_digit ds),
                           dropWhile is_digit ds))
          else Some (0, s))"

definition parse_number :: "jsstring \<Rightarrow> (json \<times> jsstring) option" where
  "parse_number s =
     (case number_integer (snd (number_sign s)) of
        None \<Rightarrow> None
      | Some (int_digits, s2) \<Rightarrow>
          (case number_fraction s2 of
             None \<Rightarrow> None
           | Some (fraction_digits, s3) \<Rightarrow>
               (case number_exponent s3 of
                  None \<Rightarrow> None
                | Some (exponent, s4) \<Rightarrow>
                    Some (JNum (if fst (number_sign s)
                                then - digits_value (int_digits @ fraction_digits)
                                else digits_value (int_digits @ fraction_digits))
                            (exponent - int (length fraction_digits)), s4))))"

fun parse_value :: "nat \<Rightarrow> jsstring \<Rightarrow> json parsed"
  and parse_elements :: "nat \<Rightarrow> jsstring \<Rightarrow> (json list) parsed"
  and parse_members :: "nat \<Rightarrow> jsstring \<Rightarrow> ((jsstring \<times> json) list) parsed"
where
  "parse_value 0 s = OutOfFuel"
| "parse_value (Suc n) s =
     (case skip_ws s of
        [] \<Rightarrow> Malformed
      | c # cs \<Rightarrow>
          if c = 123 then
            (case skip_ws cs of
               [] \<Rightarrow> Malformed
             | d # r \<Rightarrow>
                 if d = 125 then Parsed (JObj []) r
                 else (case parse_members n cs of
                         Parsed ms r' \<Rightarrow> Parsed (JObj ms) r'
                       | Malformed \<Rightarrow> Malformed
                       | OutOfFuel \<Rightarrow> OutOfFuel))
          else if c = 91 then
            (case skip_ws cs of
               [] \<Rightarrow> Malformed
             | d # r \<Rightarrow>
                 if d = 93 then Parsed (JArr []) r
                 else (case parse_elements n cs of
                         Parsed vs r' \<Rightarrow> Parsed (JArr vs) r'
                       | Malformed \<Rightarrow> Malformed
                       | OutOfFuel \<Rightarrow> OutOfFuel))
          else if c = 34 then
            (case parse_string_body cs of
               None \<Rightarrow> Malformed
             | Some (str, r) \<Rightarrow> Parsed (JStr str) r)
          else if starts_with (lit ''true'') (c # cs) \<noteq> None
            then Parsed (JBool True) (drop 4 (c # cs))
          else if starts_with (lit ''false'') (c # cs) \<noteq> None
            then Parsed (JBool False) (drop 5 (c # cs))
          else if starts_with (lit ''null'') (c # cs) \<noteq> None
            then Parsed JNull (drop 4 (c # cs))
          else (case parse_number (c # cs) of
                  None \<Rightarrow> Malformed
                | Some (v, r) \<Rightarrow> Parsed v r))"
| "parse_elements 0 s = OutOfFuel"
| "parse_elements (Suc n) s =
     (case parse_value n s of
        OutOfFuel \<Rightarrow> OutOfFuel
      | Malformed \<Rightarrow> Malformed
      | Parsed v r \<Rightarrow>
          (case skip_ws r of
             [] \<Rightarrow> Malformed
           | d # r' \<Rightarrow>
               if d = 93 then Parsed [v] r'
               else if d = 44 then
                 (case parse_elements n r' of
                    Parsed vs r'' \<Rightarrow> Parsed (v # vs) r''
                  | Malformed \<Rightarrow> Malformed
                  | OutOfFuel \<Rightarrow> OutOfFuel)
               else Malformed))"
| "parse_members 0 s = OutOfFuel"
| "parse_members (Suc n) s =
     (case skip_ws s of
        [] \<Rightarrow> Malformed
      | q # r \<Rightarrow>
          if q \<noteq> 34 then Malformed
          else
            (case parse_string_body r of
               None \<Rightarrow> Malformed
             | Some (key, r1) \<Rightarrow>
                 (case skip_ws r1 of
                    [] \<Rightarrow> Malformed
                  | colon # r2 \<Rightarrow>
                      if colon \<noteq> 58 then Malformed
                      else
                        (case parse_value n r2 of
                           OutOfFuel \<Rightarrow> OutOfFuel
                         | Malformed \<Rightarrow> Malformed
                         | Parsed v r3 \<Rightarrow>
                             (case skip_ws r3 of
                                [] \<Rightarrow> Malformed
                              | d # r4 \<Rightarrow>
                                  if d = 125 then Parsed [(key, v)] r4
                                  else if d = 44 then
                                    (case parse_members n r4 of
                                       Parsed ms r5 \<Rightarrow> Parsed ((key, v) # ms) r5
                                     | Malformed \<Rightarrow> Malformed
                                     | OutOfFuel \<Rightarrow> OutOfFuel)
                                  else Malformed)))))"

text \<open>
  \<open>JSON.parse\<close>: one value, with nothing but white space after it; anything else is the
  \<open>SyntaxError\<close> the caller catches.
\<close>

definition JSON_parse :: "jsstring \<Rightarrow> js_exception + json" where
  "JSON_parse s =
     (case parse_value (Suc (length s + length s)) s of
        Parsed v r \<Rightarrow>
          if skip_ws r = [] then Inr v else Inl (ScriptError ''SyntaxError'')
      | Malformed \<Rightarrow> Inl (ScriptError ''SyntaxError'')
      | OutOfFuel \<Rightarrow> Inl (ScriptError ''SyntaxError''))"

text \<open>\<open>indexOf\<close> and \<open>lastIndexOf\<close> of one character; \<open>None\<close> is \<open>-1\<close>.\<close>

fun indexOf :: "jsstring \<Rightarrow> nat \<Rightarrow> nat option" where
  "indexOf [] c = None"
| "indexOf (x # xs) c = (if x = c then Some 0 else map_option Suc (indexOf xs c))"

definition lastIndexOf :: "jsstring \<Rightarrow> nat \<Rightarrow> nat option" where
  "lastIndexOf s c = map_option (\<lambda>i. length s - 1 - i) (indexOf (rev s) c)"

text \<open>\<open>slice(from, until)\<close> for \<open>from \<le> until \<le> length\<close>.\<close>

definition slice :: "jsstring \<Rightarrow> nat \<Rightarrow> nat \<Rightarrow> jsstring" where
  "slice s from until = take (until - from) (drop from s)"

text \<open>\<open>parseJsonFromOutput\<close>; the result \<open>null\<close> is \<open>JNull\<close>.\<close>

definition parseJsonFromOutput :: "jsstring \<Rightarrow> json" where
  "parseJsonFromOutput raw =
     (if raw = [] then JNull
      else
        let clean = stripAnsi raw;
            firstBrace = indexOf clean 123;
            lastBrace = lastIndexOf clean 125
        in (case firstBrace of
              None \<Rightarrow> JNull
            | Some i \<Rightarrow>
                (case lastBrace of
                   None \<Rightarrow> JNull
                 | Some j \<Rightarrow>
                     if j \<le> i then JNull
                     else (case JSON_parse (slice clean i (j + 1)) of
                             Inr v \<Rightarrow> v
                           | Inl e \<Rightarrow> JNull))))"

section \<open>Identifier parsers: \<open>extractAccounts\<close>\<close>

text \<open>
  Reading the parsed value.  \<open>get_prop v k\<close> is the property \<open>v.k\<close> of a value that is not
  \<open>null\<close>, for the property names the script uses (none of which a prototype defines):
  the member of an object, \<open>undefined\<close> (\<open>None\<close>) on anything else.  \<open>truthy\<close> is the coercion
  to a boolean; a number is zero when it rounds to zero as a double, that is when its
  magnitude is at most \<open>2 ^ -1075\<close>.
\<close>

fun get_prop :: "json \<Rightarrow> string \<Rightarrow> json option" where
  "get_prop (JObj members) k = map_of (rev members) (lit k)"
| "get_prop v k = None"

definition number_is_zero :: "int \<Rightarrow> int \<Rightarrow> bool" where
  "number_is_zero mantissa exponent =
     (mantissa = 0 \<or> (exponent < 0 \<and> \<bar>mantissa\<bar> * 2 ^ 1075 \<le> 10 ^ nat (- exponent)))"

fun truthy :: "json \<Rightarrow> bool" where
  "truthy JNull = False"
| "truthy (JBool b) = b"
| "truthy (JNum mantissa exponent) = (\<not> number_is_zero mantissa exponent)"
| "truthy (JStr s) = (s \<noteq> [])"
| "truthy (JArr vs) = True"
| "truthy (JObj ms) = True"

text \<open>\<open>x ?? y\<close>: \<open>y\<close> when \<open>x\<close> is \<open>undefined\<close> or \<open>null\<close>.\<close>

fun nullish_or :: "json option \<Rightarrow> json option \<Rightarrow> json option" where
  "nullish_or None y = y"
| "nullish_or (Some JNull) y = y"
| "nullish_or (Some v) y = Some v"

text \<open>\<open>x?.k\<close>: \<open>undefined\<close> when \<open>x\<close> is \<open>undefined\<close> or \<open>null\<close>, the property otherwise.\<close>

fun optional_prop :: "json option \<Rightarrow> string \<Rightarrow> json option" where
  "optional_prop None k = None"
| "optional_prop (Some JNull) k = None"
| "optional_prop (Some v) k = get_prop v k"

text \<open>
  The type \<open>AccountInfo\<close>; its fields \<open>id\<close> and \<open>name\<close> are \<open>account_id\<close> and
  \<open>account_name\<close> here, \<open>id\<close> being the identity function of the logic.
\<close>

record AccountInfo =
  account_id :: jsstring
  account_name :: "jsstring option"

text \<open>\<open>/^[a-f0-9]{32}$/i.test\<close>\<close>

definition is_account_id :: "jsstring \<Rightarrow> bool" where
  "is_account_id s = (length s = 32 \<and> list_all is_hex s)"

text \<open>
  \<open>addAccount\<close> on the map \<open>accounts\<close>, an insertion-ordered \<open>Map\<close> keyed by id, here the list
  of its values.  The arguments are \<open>undefined\<close> (\<open>None\<close>), \<open>null\<close> or a value.  \<open>id.trim()\<close> and
  \<open>name?.trim()\<close> are calls of a method only strings have: on any other value that passed
  the tests before them they throw a \<open>TypeError\<close>.
\<close>

definition addAccount ::
  "json option \<Rightarrow> json option \<Rightarrow> AccountInfo list \<Rightarrow> js_exception + AccountInfo list" where
  "addAccount id_arg name_arg accounts =
     (case id_arg of
        None \<Rightarrow> Inr accounts
      | Some id_value \<Rightarrow>
          if \<not> truthy id_value then Inr accounts
          else
            (case id_value of
               JStr id_text \<Rightarrow>
                 let trimmedId = trim id_text in
                 if \<not> is_account_id trimmedId then Inr accounts
                 else
                   (case (case name_arg of
                            None \<Rightarrow> Inr None
                          | Some JNull \<Rightarrow> Inr None
                          | Some (JStr name_text) \<Rightarrow> Inr (Some (trim name_text))
                          | Some other \<Rightarrow> Inl (TypeError ''name?.trim is not a function'')) of
                      Inl e \<Rightarrow> Inl e
                    | Inr trimmedName \<Rightarrow>
                        let cleanName =
                              (case trimmedName of
                                 None \<Rightarrow> None
                               | Some t \<Rightarrow>
                                   if t = [] then None
                                   else Some (trim (filter (\<lambda>c. c \<noteq> 34 \<and> c \<noteq> 39) t)))
                        in if list_ex (\<lambda>a. account_id a = trimmedId) accounts then Inr accounts
                           else Inr (accounts @
                                  [\<lparr> account_id = trimmedId,
                                     account_name = (case cleanName of
                                               None \<Rightarrow> None
                                             | Some n \<Rightarrow> if n = [] then None else Some n) \<rparr>]))
             | other \<Rightarrow> Inl (TypeError ''id.trim is not a function'')))"

text \<open>
  The entries of \<open>candidates\<close>: \<open>entry.id ?? null\<close> and \<open>entry.name ?? null\<close>.  Reading a
  property of \<open>null\<close> throws.
\<close>

fun add_candidates :: "json list \<Rightarrow> AccountInfo list \<Rightarrow> js_exception + AccountInfo list" where
  "add_candidates [] accounts = Inr accounts"
| "add_candidates (entry # rest) accounts =
     (if entry = JNull then Inl (TypeError ''Cannot read properties of null'')
      else
        (case addAccount (nullish_or (get_prop entry ''id'') (Some JNull))
                (nullish_or (get_prop entry ''name'') (Some JNull)) accounts of
           Inl e \<Rightarrow> Inl e
         | Inr accounts' \<Rightarrow> add_candidates rest accounts'))"

text \<open>\<open>Array.isArray(v) ? [...v] : []\<close> for a property that may be absent.\<close>

fun array_elements :: "json option \<Rightarrow> json list" where
  "array_elements (Some (JArr vs)) = vs"
| "array_elements v = []"

text \<open>The structured strategy: the body of \<open>if (data) { ... }\<close>.\<close>

definition add_from_json :: "json \<Rightarrow> AccountInfo list \<Rightarrow> js_exception + AccountInfo list" where
  "add_from_json data accounts =
     (if \<not> truthy data then Inr accounts
      else
        (case addAccount (nullish_or (optional_prop (get_prop data ''account'') ''id'') (Some JNull))
                (nullish_or (optional_prop (get_prop data ''account'') ''name'') (Some JNull))
                accounts of
           Inl e \<Rightarrow> Inl e
         | Inr accounts' \<Rightarrow>
             add_candidates
               (array_elements (get_prop data ''accounts'')
                @ (case get_prop data ''result'' of
                     None \<Rightarrow> []
                   | Some result \<Rightarrow>
                       if truthy result then array_elements (get_prop result ''accounts'')
                       else []))
               accounts'))"

text \<open>\<open>split(/\r?\n/)\<close>\<close>

fun split_lines :: "jsstring \<Rightarrow> jsstring list" where
  "split_lines [] = [[]]"
| "split_lines [c] = (if c = 10 then [[], []] else [[c]])"
| "split_lines (c # d # cs) =
     (if c = 10 then [] # split_lines (d # cs)
      else if c = 13 \<and> d = 10 then [] # split_lines cs
      else (case split_lines (d # cs) of
              [] \<Rightarrow> [[c]]
            | line # lines \<Rightarrow> (c # line) # lines))"

text \<open>\<open>split(/[\u2502\|]/)\<close>\<close>

definition is_bar :: "nat \<Rightarrow> bool" where
  "is_bar c = (c = 9474 \<or> c = 124)"

fun split_bars :: "jsstring \<Rightarrow> jsstring list" where
  "split_bars [] = [[]]"
| "split_bars (c # cs) =
     (if is_bar c then [] # split_bars cs
      else (case split_bars cs of
              [] \<Rightarrow> [[c]]
            | cell # cells \<Rightarrow> (c # cell) # cells))"

text \<open>
  \<open>/^[\u2502\|].*[\u2502\|]$/.test\<close>: a bar first, a bar last, and no line terminator
  between them.
\<close>

definition is_table_row :: "jsstring \<Rightarrow> bool" where
  "is_table_row s =
     (2 \<le> length s \<and> is_bar (hd s) \<and> is_bar (last s)
      \<and> list_all (\<lambda>c. \<not> is_line_terminator c) (butlast (tl s)))"

text \<open>\<open>/account name/i.test\<close> and \<open>/account id/i.test\<close>\<close>

definition contains_ci :: "string \<Rightarrow> jsstring \<Rightarrow> bool" where
  "contains_ci p s = (search_first (starts_with_ci (lit p)) s \<noteq> None)"

text \<open>
  Exactly 32 hexadecimal characters at the start: \<open>[0-9a-f]{32}\<close> under the \<open>i\<close> flag, with
  what follows.
\<close>

definition hex32_at :: "jsstring \<Rightarrow> (jsstring \<times> jsstring) option" where
  "hex32_at s =
     (if 32 \<le> length s \<and> list_all is_hex (take 32 s) then Some (take 32 s, drop 32 s)
      else None)"

text \<open>
  \<open>/(.+?)\s*\(id:\s*([0-9a-f]{32})\)/i\<close>.  \<open>inline_tail\<close> is the pattern after the first
  group, anchored, and returns the second group.  The lazy first group takes one character
  that is not a line terminator and grows by one as long as the tail does not match;
  \<open>inline_lazy\<close> carries the group so far.
\<close>

definition inline_tail :: "jsstring \<Rightarrow> jsstring option" where
  "inline_tail s =
     (case starts_with_ci (lit ''(id:'') (dropWhile is_space s) of
        None \<Rightarrow> None
      | Some r \<Rightarrow>
          (case hex32_at (dropWhile is_space r) of
             None \<Rightarrow> None
           | Some (hex, r') \<Rightarrow>
               (case r' of
                  [] \<Rightarrow> None
                | c # r'' \<Rightarrow> if c = 41 then Some hex else None)))"

fun inline_lazy :: "jsstring \<Rightarrow> jsstring \<Rightarrow> (jsstring \<times> jsstring) option" where
  "inline_lazy group1 [] =
     (case inline_tail [] of Some hex \<Rightarrow> Some (group1, hex) | None \<Rightarrow> None)"
| "inline_lazy group1 (c # cs) =
     (case inline_tail (c # cs) of
        Some hex \<Rightarrow> Some (group1, hex)
      | None \<Rightarrow> if is_line_terminator c then None else inline_lazy (group1 @ [c]) cs)"

definition inline_at :: "jsstring \<Rightarrow> (jsstring \<times> jsstring) option" where
  "inline_at s =
     (case s of
        [] \<Rightarrow> None
      | c # cs \<Rightarrow> if is_line_terminator c then None else inline_lazy [c] cs)"

text \<open>\<open>/account\s+id\s*:\s*([0-9a-f]{32})/i\<close>, anchored; returns the group.\<close>

definition colon_at :: "jsstring \<Rightarrow> jsstring option" where
  "colon_at s =
     (case starts_with_ci (lit ''account'') s of
        None \<Rightarrow> None
      | Some r \<Rightarrow>
          if takeWhile is_space r = [] then None
          else
            (case starts_with_ci (lit ''id'') (dropWhile is_space r) of
               None \<Rightarrow> None
             | Some r1 \<Rightarrow>
                 (case starts_with [58] (dropWhile is_space r1) of
                    None \<Rightarrow> None
                  | Some r2 \<Rightarrow> map_option fst (hex32_at (dropWhile is_space r2)))))"

text \<open>The body of the loop over the lines.\<close>

definition add_from_line :: "jsstring \<Rightarrow> AccountInfo list \<Rightarrow> js_exception + AccountInfo list" where
  "add_from_line line accounts =
     (let trimmed = trim line in
      if trimmed = [] then Inr accounts
      else if is_table_row trimmed then
        (let parts = filter (\<lambda>part. part \<noteq> []) (map trim (split_bars trimmed)) in
         case parts of
           maybeName # maybeId # others \<Rightarrow>
             if \<not> contains_ci ''account name'' maybeName \<and> \<not> contains_ci ''account id'' maybeId
             then addAccount (Some (JStr maybeId)) (Some (JStr maybeName)) accounts
             else Inr accounts
         | _ \<Rightarrow> Inr accounts)
      else
        (case search_first inline_at trimmed of
           Some (group1, group2) \<Rightarrow> addAccount (Some (JStr group2)) (Some (JStr group1)) accounts
         | None \<Rightarrow>
             (case search_first colon_at trimmed of
                Some group1 \<Rightarrow> addAccount (Some (JStr group1)) None accounts
              | None \<Rightarrow> Inr accounts)))"

fun add_from_lines :: "jsstring list \<Rightarrow> AccountInfo list \<Rightarrow> js_exception + AccountInfo list" where
  "add_from_lines [] accounts = Inr accounts"
| "add_from_lines (line # rest) accounts =
     (case add_from_line line accounts of
        Inl e \<Rightarrow> Inl e
      | Inr accounts' \<Rightarrow> add_from_lines rest accounts')"

definition extractAccounts :: "jsstring \<Rightarrow> js_exception + AccountInfo list" where
  "extractAccounts raw =
     (let cleanOutput = stripAnsi raw;
          data = parseJsonFromOutput cleanOutput
      in case add_from_json data [] of
           Inl e \<Rightarrow> Inl e
         | Inr accounts \<Rightarrow> add_from_lines (split_lines cleanOutput) accounts)"

section \<open>Identifier parsers: \<open>parseD1CreateResult\<close>\<close>

text \<open>
  The result \<open>{ id, name }\<close>.  The structured stage returns whatever values the payload
  holds under the keys, so the fields are JSON values; the two text stages return strings.
\<close>

record D1CreateResult =
  result_id :: json
  result_name :: json

text \<open>\<open>/"database_id"\s*:\s*"([0-9a-f-]{36})"/i\<close>, anchored; returns the group.\<close>

definition database_id_at :: "jsstring \<Rightarrow> jsstring option" where
  \<open>database_id_at s =
     (case starts_with_ci (lit ''"database_id"'') s of
        None \<Rightarrow> None
      | Some r \<Rightarrow>
          (case starts_with [58] (dropWhile is_space r) of
             None \<Rightarrow> None
           | Some r1 \<Rightarrow>
               (case starts_with [34] (dropWhile is_space r1) of
                  None \<Rightarrow> None
                | Some r2 \<Rightarrow>
                    if 36 \<le> length r2 \<and> list_all is_hex_or_dash (take 36 r2)
                       \<and> starts_with [34] (drop 36 r2) \<noteq> None
                    then Some (take 36 r2) else None)))\<close>

text \<open>\<open>/"database_name"\s*:\s*"([^"]+)"/i\<close>, anchored; returns the group.\<close>

definition database_name_at :: "jsstring \<Rightarrow> jsstring option" where
  \<open>database_name_at s =
     (case starts_with_ci (lit ''"database_name"'') s of
        None \<Rightarrow> None
      | Some r \<Rightarrow>
          (case starts_with [58] (dropWhile is_space r) of
             None \<Rightarrow> None
           | Some r1 \<Rightarrow>
               (case starts_with [34] (dropWhile is_space r1) of
                  None \<Rightarrow> None
                | Some r2 \<Rightarrow>
                    if takeWhile (\<lambda>c. c \<noteq> 34) r2 \<noteq> []
                       \<and> dropWhile (\<lambda>c. c \<noteq> 34) r2 \<noteq> []
                    then Some (takeWhile (\<lambda>c. c \<noteq> 34) r2) else None)))\<close>

text \<open>
  \<open>/([0-9a-f]{8}-[0-9a-f]{4}-[0-9a-f]{4}-[0-9a-f]{4}-[0-9a-f]{12})/i\<close>, anchored:
  36 characters, dashes at 8, 13, 18 and 23, hexadecimal digits elsewhere.
\<close>

definition is_uuid :: "jsstring \<Rightarrow> bool" where
  "is_uuid u =
     (length u = 36
      \<and> list_all is_hex (take 8 u) \<and> u ! 8 = 45
      \<and> list_all is_hex (take 4 (drop 9 u)) \<and> u ! 13 = 45
      \<and> list_all is_hex (take 4 (drop 14 u)) \<and> u ! 18 = 45
      \<and> list_all is_hex (take 4 (drop 19 u)) \<and> u ! 23 = 45
      \<and> list_all is_hex (drop 24 u))"

definition uuid_at :: "jsstring \<Rightarrow> jsstring option" where
  "uuid_at s = (if 36 \<le> length s \<and> is_uuid (take 36 s) then Some (take 36 s) else None)"

text \<open>
  \<open>/DB ["']?([\w-]+)["']?/i\<close> and \<open>/database ["']?([\w-]+)["']?/i\<close>, anchored, for the
  literal \<open>phrase\<close> (with its space); returns the group.  If a quote follows the phrase it is
  taken; the group is the longest run of word characters and dashes there.
\<close>

definition name_phrase_at :: "string \<Rightarrow> jsstring \<Rightarrow> jsstring option" where
  "name_phrase_at phrase s =
     (case starts_with_ci (lit phrase) s of
        None \<Rightarrow> None
      | Some r \<Rightarrow>
          let r' = (if r \<noteq> [] \<and> (hd r = 34 \<or> hd r = 39) then tl r else r) in
          if takeWhile is_word_or_dash r' = [] then None
          else Some (takeWhile is_word_or_dash r'))"

definition parseD1CreateResult :: "jsstring \<Rightarrow> jsstring \<Rightarrow> D1CreateResult option" where
  "parseD1CreateResult raw fallbackName =
     (let clean = stripAnsi raw;
          data = parseJsonFromOutput clean;
          structured =
            (if truthy data then
               let payload =
                     (case nullish_or (get_prop data ''result'') (Some data) of
                        Some p \<Rightarrow> p
                      | None \<Rightarrow> data);
                   id_value =
                     nullish_or
                       (nullish_or
                          (nullish_or (get_prop payload ''uuid'') (get_prop payload ''id''))
                          (get_prop payload ''database_id''))
                       (get_prop payload ''databaseId'');
                   name_value =
                     nullish_or
                       (nullish_or
                          (nullish_or (get_prop payload ''name'')
                             (get_prop payload ''database_name''))
                          (get_prop payload ''databaseName''))
                       (Some (JStr fallbackName))
               in (case id_value of
                     None \<Rightarrow> None
                   | Some i \<Rightarrow>
                       (case name_value of
                          None \<Rightarrow> None
                        | Some n \<Rightarrow>
                            if truthy i \<and> truthy n
                            then Some \<lparr> result_id = i, result_name = n \<rparr>
                            else None))
             else None)
      in case structured of
           Some result \<Rightarrow> Some result
         | None \<Rightarrow>
             (case search_first database_id_at clean of
                Some snippetId \<Rightarrow>
                  Some \<lparr> result_id = JStr snippetId,
                         result_name =
                           JStr (case search_first database_name_at clean of
                                   Some snippetName \<Rightarrow> snippetName
                                 | None \<Rightarrow> fallbackName) \<rparr>
              | None \<Rightarrow>
                  (case search_first uuid_at clean of
                     Some uuid \<Rightarrow>
                       Some \<lparr> result_id = JStr uuid,
                              result_name =
                                JStr (case (case search_first (name_phrase_at ''DB '') clean of
                                              Some m \<Rightarrow> Some m
                                            | None \<Rightarrow>
                                                search_first (name_phrase_at ''database '') clean) of
                                        Some matched_name \<Rightarrow> matched_name
                                      | None \<Rightarrow> fallbackName) \<rparr>
                   | None \<Rightarrow> None)))"

text \<open>
  The stages of \<open>parseD1CreateResult\<close> as the specification words them, to be compared with
  the function above.  \<open>first_present keys v\<close> is the value of the first of the \<open>keys\<close> that
  \<open>v\<close> has with a value other than \<open>null\<close>.  The structured stage reads the parsed body, or
  what it holds under \<open>result\<close>, takes the id under the first id alias present and the name
  under the first name alias present, the fallback name when none is, and succeeds when
  both are truthy.  The quoted stage is the \<open>"database_id"\<close> pattern with the optional
  \<open>"database_name"\<close> pattern.  The bare stage is the UUID pattern with the optional name
  phrase, \<open>DB\<close> before \<open>database\<close>.  \<open>first_success\<close> is the first result of a list that is
  not \<open>null\<close>.
\<close>

fun first_present :: "string list \<Rightarrow> json \<Rightarrow> json option" where
  "first_present [] v = None"
| "first_present (k # ks) v =
     (case get_prop v k of
        None \<Rightarrow> first_present ks v
      | Some JNull \<Rightarrow> first_present ks v
      | Some x \<Rightarrow> Some x)"

definition structured_stage :: "jsstring \<Rightarrow> jsstring \<Rightarrow> D1CreateResult option" where
  "structured_stage clean fallbackName =
     (let body = parseJsonFromOutput clean in
      if \<not> truthy body then None
      else
        let payload = (case first_present [''result''] body of Some p \<Rightarrow> p | None \<Rightarrow> body) in
        case first_present [''uuid'', ''id'', ''database_id'', ''databaseId''] payload of
          None \<Rightarrow> None
        | Some found_id \<Rightarrow>
            let found_name =
                  (case first_present [''name'', ''database_name'', ''databaseName''] payload of
                     Some n \<Rightarrow> n
                   | None \<Rightarrow> JStr fallbackName)
            in if truthy found_id \<and> truthy found_name
               then Some \<lparr> result_id = found_id, result_name = found_name \<rparr>
               else None)"

definition quoted_id_stage :: "jsstring \<Rightarrow> jsstring \<Rightarrow> D1CreateResult option" where
  "quoted_id_stage clean fallbackName =
     map_option
       (\<lambda>found_id.
          \<lparr> result_id = JStr found_id,
            result_name = JStr (case search_first database_name_at clean of
                                  Some n \<Rightarrow> n
                                | None \<Rightarrow> fallbackName) \<rparr>)
       (search_first database_id_at clean)"

definition bare_uuid_stage :: "jsstring \<Rightarrow> jsstring \<Rightarrow> D1CreateResult option" where
  "bare_uuid_stage clean fallbackName =
     map_option
       (\<lambda>found_id.
          \<lparr> result_id = JStr found_id,
            result_name =
              JStr (case search_first (name_phrase_at ''DB '') clean of
                      Some n \<Rightarrow> n
                    | None \<Rightarrow>
                        (case search_first (name_phrase_at ''database '') clean of
                           Some n \<Rightarrow> n
                         | None \<Rightarrow> fallbackName)) \<rparr>)
       (search_first uuid_at clean)"

fun first_success :: "'a option list \<Rightarrow> 'a option" where
  "first_success [] = None"
| "first_success (None # rest) = first_success rest"
| "first_success (Some x # rest) = Some x"

text \<open>Vocabulary for the proofs: a value that is \<open>undefined\<close> or \<open>null\<close> counts as absent.\<close>

fun present :: "json option \<Rightarrow> json option" where
  "present None = None"
| "present (Some JNull) = None"
| "present (Some v) = Some v"

section \<open>The account prompts\<close>

text \<open>
  \<open>question\<close> reads one line from the terminal and trims it.  The lines the operator will
  type are the list \<open>answers\<close>; a prompt returns the lines left, and \<open>None\<close> when the input
  ends before it is done, in which case it never returns.  The loops that ask again on
  invalid input recurse on that list.  Console output is not modelled.
\<close>

definition question :: "jsstring list \<Rightarrow> (jsstring \<times> jsstring list) option" where
  "question answers = (case answers of [] \<Rightarrow> None | ans # rest \<Rightarrow> Some (trim ans, rest))"

text \<open>\<open>label || undefined\<close>\<close>

definition or_undefined :: "jsstring \<Rightarrow> jsstring option" where
  "or_undefined s = (if s = [] then None else Some s)"

fun promptForAccountId :: "jsstring list \<Rightarrow> (AccountInfo \<times> jsstring list) option" where
  "promptForAccountId [] = None"
| "promptForAccountId (ans # rest) =
     (let accountId = trim (trim ans) in
      if is_account_id accountId then
        (case question rest of
           None \<Rightarrow> None
         | Some (label, rest') \<Rightarrow>
             Some (\<lparr> account_id = accountId, account_name = or_undefined (trim label) \<rparr>, rest'))
      else promptForAccountId rest)"

text \<open>
  \<open>Number.parseInt(answer, 10)\<close>: leading white space, an optional sign and the longest run
  of decimal digits; \<open>None\<close> is \<open>NaN\<close>.
\<close>

definition parseInt10 :: "jsstring \<Rightarrow> int option" where
  "parseInt10 s =
     (let s0 = dropWhile is_space s;
          negative = (s0 \<noteq> [] \<and> hd s0 = 45);
          s1 = (if s0 \<noteq> [] \<and> (hd s0 = 45 \<or> hd s0 = 43) then tl s0 else s0);
          ds = takeWhile is_digit s1
      in if ds = [] then None
         else Some (if negative then - digits_value ds else digits_value ds))"

fun select_account :: "AccountInfo list \<Rightarrow> jsstring list \<Rightarrow> (AccountInfo \<times> jsstring list) option" where
  "select_account detected [] = None"
| "select_account detected (ans # rest) =
     (let answer = trim (trim ans) in
      if answer = [] then
        (case detected of [] \<Rightarrow> None | first_account # others \<Rightarrow> Some (first_account, rest))
      else
        (case (case parseInt10 answer of
                 None \<Rightarrow> None
               | Some i \<Rightarrow> if 1 \<le> i \<and> i \<le> int (length detected) then Some (nat (i - 1)) else None) of
           Some k \<Rightarrow> Some (detected ! k, rest)
         | None \<Rightarrow>
             if is_account_id answer then
               (case question rest of
                  None \<Rightarrow> None
                | Some (label, rest') \<Rightarrow>
                    Some (\<lparr> account_id = answer, account_name = or_undefined (trim label) \<rparr>,
                          rest'))
             else select_account detected rest))"

definition chooseCloudflareAccount ::
  "AccountInfo list \<Rightarrow> jsstring list \<Rightarrow> (AccountInfo \<times> jsstring list) option" where
  "chooseCloudflareAccount detected answers =
     (if 0 < length detected then select_account detected answers
      else promptForAccountId answers)"

text \<open>
  Vocabulary for the properties: every account of a list has an id that passes the test of
  the script; and the stricter shape of 32 lower-case hexadecimal characters.
\<close>

definition valid_ids :: "AccountInfo list \<Rightarrow> bool" where
  "valid_ids accounts = list_all (\<lambda>a. is_account_id (account_id a)) accounts"

definition is_lowercase_account_id :: "jsstring \<Rightarrow> bool" where
  "is_lowercase_account_id s =
     (length s = 32 \<and> list_all (\<lambda>c. is_digit c \<or> (97 \<le> c \<and> c \<le> 102)) s)"

section \<open>Properties of the schema bootstrap\<close>

lemma run_append: "run (xs @ ys) s = run ys (run xs s)" by (simp add: run_def)

lemma settle_fields [simp]:
  "bootstrapPromise (settle k out s) = bootstrapPromise s"
  "attempts (settle k out s) = attempts s"
  "inflight (settle k out s) = inflight s"
  "issued (settle k out s) = issued s"
  "promises (settle k out s) = (promises s)(k := Settled out)"
  by (simp_all add: settle_def)

lemma await_fields [simp]:
  "bootstrapPromise (await_promise c k s) = bootstrapPromise s"
  "attempts (await_promise c k s) = attempts s"
  "inflight (await_promise c k s) = inflight s"
  "issued (await_promise c k s) = issued s"
  "promises (await_promise c k s) = promises s"
  by (simp_all add: await_promise_def split: promise.splits)

lemma settle_waiters [simp]:
  "awaiting (settle k out s) = filter (\<lambda>w. snd w \<noteq> k) (awaiting s)"
  "finished (settle k out s) =
     finished s @ map (\<lambda>w. (fst w, out)) (filter (\<lambda>w. snd w = k) (awaiting s))"
  by (simp_all add: settle_def)

lemma await_pending [simp]:
  "promises s k = Pending \<Longrightarrow> awaiting (await_promise c k s) = awaiting s @ [(c, k)]"
  "promises s k = Pending \<Longrightarrow> finished (await_promise c k s) = finished s"
  by (simp_all add: await_promise_def)

lemma await_settled [simp]:
  "promises s k = Settled out \<Longrightarrow> awaiting (await_promise c k s) = awaiting s"
  "promises s k = Settled out \<Longrightarrow> finished (await_promise c k s) = finished s @ [(c, out)]"
  by (simp_all add: await_promise_def)




lemma initial_fields [simp]:
  "bootstrapPromise initial = None" "promises initial = (\<lambda>_. Pending)" "attempts initial = 0"
  "inflight initial = None" "issued initial = []" "awaiting initial = []" "finished initial = []"
  by (simp_all add: initial_def)







section \<open>Properties of the string operations\<close>

lemma lit_Nil: "lit [] = []" by (simp add: lit_def)
lemma lit_Cons: "lit (c # cs) = of_char c # lit cs" by (simp add: lit_def)

lemmas char_class_defs = is_digit_def is_lower_def is_upper_def is_alnum_def is_word_or_dash_def
  is_hex_def is_hex_or_dash_def is_line_terminator_def is_space_def

lemma length_lit [simp]: "length (lit s) = length s" by (simp add: lit_def)

lemma starts_with_Some: "starts_with p s = Some r \<longleftrightarrow> s = p @ r"
proof
  assume "starts_with p s = Some r"
  then have "take (length p) s = p" "r = drop (length p) s"
    by (simp_all add: starts_with_def split: if_splits)
  then show "s = p @ r" by (metis append_take_drop_id)
qed (simp add: starts_with_def)


lemma search_first_Some:
  "search_first at s = Some m \<Longrightarrow>
     \<exists>pre suf. s = pre @ suf \<and> at suf = Some m
       \<and> (\<forall>p q. s = p @ q \<and> length p < length pre \<longrightarrow> at q = None)"
proof (induction s)
  case Nil
  then show ?case by simp
next
  case (Cons c cs)
  show ?case
  proof (cases "at (c # cs)")
    case (Some m')
    with Cons.prems have "at (c # cs) = Some m" by simp
    then show ?thesis by (intro exI[of _ "[]"] exI[of _ "c # cs"]) simp
  next
    case None
    with Cons.prems have "search_first at cs = Some m" by simp
    from Cons.IH[OF this] obtain pre suf where
      ps: "cs = pre @ suf" "at suf = Some m"
      "\<forall>p q. cs = p @ q \<and> length p < length pre \<longrightarrow> at q = None" by blast
    have "\<forall>p q. c # cs = p @ q \<and> length p < length (c # pre) \<longrightarrow> at q = None"
    proof (intro allI impI)
      fix p q assume a: "c # cs = p @ q \<and> length p < length (c # pre)"
      show "at q = None"
      proof (cases p)
        case Nil
        with a None show ?thesis by simp
      next
        case (Cons x xs)
        with a have "cs = xs @ q" "length xs < length pre" by simp_all
        with ps(3) show ?thesis by blast
      qed
    qed
    with ps show ?thesis by (intro exI[of _ "c # pre"] exI[of _ suf]) simp
  qed
qed

lemma search_first_None: "search_first at s = None \<Longrightarrow> s = p @ q \<Longrightarrow> at q = None"
proof (induction s arbitrary: p)
  case Nil
  then show ?case by simp
next
  case (Cons c cs)
  from Cons.prems(1) have n: "at (c # cs) = None" "search_first at cs = None"
    by (simp_all split: option.splits)
  show ?case
  proof (cases p)
    case Nil
    with Cons.prems n show ?thesis by simp
  next
    case (Cons x xs)
    with Cons.prems have "cs = xs @ q" by simp
    from Cons.IH[OF n(2) this] show ?thesis .
  qed
qed





text \<open>The definitions a concrete input is evaluated with.\<close>

lemmas json_eval = parseJsonFromOutput_def lastIndexOf_def slice_def ansi_at_def JSON_parse_def
  skip_ws_def is_json_ws_def starts_with_def parse_number_def number_sign_def number_integer_def number_fraction_def
  number_exponent_def Let_def digits_value_def
  is_csi_parameter_def is_csi_intermediate_def is_csi_final_def escape_char_def hex_value_def
  number_is_zero_def

lemmas accounts_eval = extractAccounts_def add_from_json_def add_from_line_def addAccount_def
  trim_def is_account_id_def is_table_row_def is_bar_def contains_ci_def hex32_at_def
  inline_tail_def inline_at_def colon_at_def starts_with_ci_def upper_of_def eq_ci_def

section \<open>Properties of the webhook step\<close>

lemma whsec_at_Some:
  assumes "whsec_at q = Some m"
  shows "\<exists>post. q = m @ post \<and> is_whsec_token m \<and> (post = [] \<or> \<not> is_alnum (hd post))"
proof -
  from assms obtain rest where r: "starts_with (lit ''whsec_'') q = Some rest"
    "takeWhile is_alnum rest \<noteq> []" "m = lit ''whsec_'' @ takeWhile is_alnum rest"
    by (auto simp: whsec_at_def split: option.splits if_splits)
  from r(1) have q: "q = lit ''whsec_'' @ rest" by (simp add: starts_with_Some)
  have "q = m @ dropWhile is_alnum rest" using q r(3) by simp
  moreover have "starts_with (lit ''whsec_'') m = Some (takeWhile is_alnum rest)"
    using r(3) by (simp add: starts_with_Some)
  then have "is_whsec_token m" using r(2)
    by (simp add: is_whsec_token_def list_all_iff) (metis set_takeWhileD)
  moreover have "dropWhile is_alnum rest = [] \<or> \<not> is_alnum (hd (dropWhile is_alnum rest))"
    using hd_dropWhile by blast
  ultimately show ?thesis by blast
qed

lemma whsec_at_token:
  assumes "is_whsec_token t"
  shows "whsec_at (t @ post) \<noteq> None"
proof -
  from assms obtain body where t: "starts_with (lit ''whsec_'') t = Some body" "body \<noteq> []"
    "list_all is_alnum body"
    by (auto simp: is_whsec_token_def split: option.splits)
  obtain b bs where b: "body = b # bs" using t(2) by (cases body) auto
  have "t @ post = lit ''whsec_'' @ (b # bs @ post)" using t(1) b by (simp add: starts_with_Some)
  then have "starts_with (lit ''whsec_'') (t @ post) = Some (b # bs @ post)"
    by (simp only: starts_with_Some)
  moreover have "is_alnum b" using t(3) b by simp
  ultimately show ?thesis by (simp add: whsec_at_def)
qed

text \<open>
  Claim C8.  When the command fails, \<open>createStripeWebhook\<close> throws the very error of the
  command.  When the command succeeds and no text of the shape \<open>whsec_[a-zA-Z0-9]+\<close> occurs
  anywhere in its standard output, it throws the script's own error.  When such a text occurs
  it returns a token: an occurrence of the shape in the output that no alphanumeric character
  follows (the longest at its position) and that starts no later than any occurrence of the
  shape (the first).  So it fails exactly when the command fails or no token occurs, and the
  error reaches the caller.
\<close>

theorem createStripeWebhook_result:
  "snd (createStripeWebhook on_windows (Inl e)) = Inl e
   \<and> ((\<forall>pre t post. out = pre @ t @ post \<longrightarrow> \<not> is_whsec_token t) \<longrightarrow>
        snd (createStripeWebhook on_windows (Inr (out, err)))
          = Inl (ScriptError ''Failed to extract Stripe webhook secret''))
   \<and> (out = pre @ t @ post \<and> is_whsec_token t \<longrightarrow>
        (\<exists>pre' tok post'. snd (createStripeWebhook on_windows (Inr (out, err))) = Inr tok
           \<and> out = pre' @ tok @ post' \<and> is_whsec_token tok
           \<and> (post' = [] \<or> \<not> is_alnum (hd post')) \<and> length pre' \<le> length pre))"
proof (intro conjI impI)
  show "snd (createStripeWebhook on_windows (Inl e)) = Inl e"
    by (simp add: createStripeWebhook_def)
next
  assume no: "\<forall>pre t post. out = pre @ t @ post \<longrightarrow> \<not> is_whsec_token t"
  have "search_first whsec_at out = None"
  proof (cases "search_first whsec_at out")
    case (Some m)
    from search_first_Some[OF this] obtain p suf where "out = p @ suf" "whsec_at suf = Some m"
      by blast
    with whsec_at_Some[of suf m] no show ?thesis by blast
  qed simp
  then show "snd (createStripeWebhook on_windows (Inr (out, err)))
          = Inl (ScriptError ''Failed to extract Stripe webhook secret'')"
    by (simp add: createStripeWebhook_def)
next
  assume a: "out = pre @ t @ post \<and> is_whsec_token t"
  then have at: "whsec_at (t @ post) \<noteq> None" using whsec_at_token by blast
  obtain m where m: "search_first whsec_at out = Some m"
    using search_first_None[of whsec_at out pre "t @ post"] a at
    by (cases "search_first whsec_at out") auto
  from search_first_Some[OF m] obtain p suf where ps: "out = p @ suf" "whsec_at suf = Some m"
    "\<forall>p' q. out = p' @ q \<and> length p' < length p \<longrightarrow> whsec_at q = None" by blast
  from whsec_at_Some[OF ps(2)] obtain q where q: "suf = m @ q" "is_whsec_token m"
    "q = [] \<or> \<not> is_alnum (hd q)" by blast
  have "length p \<le> length pre"
  proof (rule ccontr)
    assume "\<not> length p \<le> length pre"
    then have "length pre < length p" by simp
    with ps(3) a have "whsec_at (t @ post) = None" by blast
    with at show False by simp
  qed
  moreover have "snd (createStripeWebhook on_windows (Inr (out, err))) = Inr m"
    using m by (simp add: createStripeWebhook_def)
  ultimately show "\<exists>pre' tok post'. snd (createStripeWebhook on_windows (Inr (out, err))) = Inr tok
           \<and> out = pre' @ tok @ post' \<and> is_whsec_token tok
           \<and> (post' = [] \<or> \<not> is_alnum (hd post')) \<and> length pre' \<le> length pre"
    using ps(1) q by blast
qed

lemma no_whsec_token:
  assumes "search_first whsec_at out = None"
  shows "\<forall>pre t post. out = pre @ t @ post \<longrightarrow> \<not> is_whsec_token t"
  using search_first_None[OF assms] whsec_at_token by blast

theorem createStripeWebhook_result_witness:
  "is_whsec_token (lit ''whsec_a1'')
   \<and> (\<exists>pre' tok post'.
        snd (createStripeWebhook False (Inr (lit ''Ready! whsec_a1B2 (^C) whsec_zz'', []))) = Inr tok
        \<and> lit ''Ready! whsec_a1B2 (^C) whsec_zz'' = pre' @ tok @ post' \<and> is_whsec_token tok
        \<and> (post' = [] \<or> \<not> is_alnum (hd post')) \<and> length pre' \<le> length (lit ''Ready! ''))
   \<and> snd (createStripeWebhook False (Inr (lit ''Ready! whsec_a1B2 (^C) whsec_zz'', [])))
        = Inr (lit ''whsec_a1B2'')
   \<and> snd (createStripeWebhook False (Inr (lit ''whsec_ is no secret'', lit ''whsec_x'')))
        = Inl (ScriptError ''Failed to extract Stripe webhook secret'')
   \<and> snd (createStripeWebhook True (Inl (ExecFailure (lit ''whsec_x'') []))) =
        Inl (ExecFailure (lit ''whsec_x'') [])"
proof -
  have tok: "is_whsec_token (lit ''whsec_a1'')"
    by (simp add: is_whsec_token_def starts_with_def lit_Nil lit_Cons char_class_defs)
  have split: "lit ''Ready! whsec_a1B2 (^C) whsec_zz''
      = lit ''Ready! '' @ lit ''whsec_a1'' @ lit ''B2 (^C) whsec_zz''"
    by (simp add: lit_def)
  have none: "\<forall>pre t post. lit ''whsec_ is no secret'' = pre @ t @ post \<longrightarrow> \<not> is_whsec_token t"
    by (rule no_whsec_token)
      (simp add: whsec_at_def starts_with_def lit_Nil lit_Cons char_class_defs)
  have val: "snd (createStripeWebhook False (Inr (lit ''Ready! whsec_a1B2 (^C) whsec_zz'', [])))
        = Inr (lit ''whsec_a1B2'')"
    by (simp add: createStripeWebhook_def whsec_at_def starts_with_def lit_Nil lit_Cons
        char_class_defs)
  note T = createStripeWebhook_result
  from T[where ?on_windows = False and ?out = "lit ''Ready! whsec_a1B2 (^C) whsec_zz''"
      and ?pre = "lit ''Ready! ''" and ?t = "lit ''whsec_a1''"
      and ?post = "lit ''B2 (^C) whsec_zz''" and ?err = "[]"] tok split
  have "\<exists>pre' tok post'.
        snd (createStripeWebhook False (Inr (lit ''Ready! whsec_a1B2 (^C) whsec_zz'', []))) = Inr tok
        \<and> lit ''Ready! whsec_a1B2 (^C) whsec_zz'' = pre' @ tok @ post' \<and> is_whsec_token tok
        \<and> (post' = [] \<or> \<not> is_alnum (hd post')) \<and> length pre' \<le> length (lit ''Ready! '')"
    by blast
  moreover from T[where ?on_windows = False and ?out = "lit ''whsec_ is no secret''"
      and ?err = "lit ''whsec_x''"] none
  have "snd (createStripeWebhook False (Inr (lit ''whsec_ is no secret'', lit ''whsec_x'')))
        = Inl (ScriptError ''Failed to extract Stripe webhook secret'')"
    by blast
  moreover from T[where ?on_windows = True and ?e = "ExecFailure (lit ''whsec_x'') []"]
  have "snd (createStripeWebhook True (Inl (ExecFailure (lit ''whsec_x'') []))) =
        Inl (ExecFailure (lit ''whsec_x'') [])"
    by blast
  ultimately show ?thesis using tok val by blast
qed

section \<open>The steps of the configuration patcher\<close>









section \<open>Properties of the configuration patcher\<close>





section \<open>Properties of the seed routine\<close>

lemma run_statements_applied:
  "run_statements ss st = (Inr (), st\<lparr> applied := applied st @ ss \<rparr>)"
  by (induction ss arbitrary: st) (simp_all add: returns_def and_then_def remoteCallback_def)

lemma tables_after_bootstrap:
  assumes "applied st = xs @ MIGRATION_STATEMENTS"
  shows "table_exists ''users'' st" "table_exists ''teams'' st" "table_exists ''team_members'' st"
proof -
  have "list_ex P MIGRATION_STATEMENTS \<Longrightarrow> list_ex P (applied st)" for P
    using assms by (auto simp add: list_ex_iff)
  then show "table_exists ''users'' st" "table_exists ''teams'' st"
    "table_exists ''team_members'' st"
    unfolding table_exists_def by (simp_all add: MIGRATION_STATEMENTS_def)
qed

lemma createStripeProducts_result:
  "createStripeProducts st =
     (Inr (), st\<lparr> products := products st @
        [\<lparr> product_id = next_id (map product_id (products st)), product_name = ''Base'',
            product_description = ''Base subscription plan'' \<rparr>,
         \<lparr> product_id = next_id (map product_id (products st)
              @ [next_id (map product_id (products st))]), product_name = ''Plus'',
            product_description = ''Plus subscription plan'' \<rparr>],
       prices := prices st @
        [\<lparr> price_id = next_id (map price_id (prices st)),
            price_product = next_id (map product_id (products st)),
            unit_amount = 800, currency = ''usd'', recurring_interval = ''month'',
            trial_period_days = 7 \<rparr>,
         \<lparr> price_id = next_id (map price_id (prices st) @ [next_id (map price_id (prices st))]),
            price_product = next_id (map product_id (products st)
              @ [next_id (map product_id (products st))]),
            unit_amount = 1200, currency = ''usd'', recurring_interval = ''month'',
            trial_period_days = 7 \<rparr>] \<rparr>)"
  by (simp add: createStripeProducts_def and_then_def products_create_def prices_create_def Let_def)

lemma seed_when_seeded:
  assumes "seeded st"
  shows "seed h st = createStripeProducts (st\<lparr> applied := applied st @ MIGRATION_STATEMENTS \<rparr>)"
  using assms
  by (auto simp add: seeded_def seed_def and_then_def run_statements_applied BOOTSTRAP_STATEMENTS_def
      select_user_def select_team_def select_membership_def returns_def tables_after_bootstrap
      split: option.splits)

lemma find_snoc:
  "find P (xs @ [x]) = (case find P xs of Some y \<Rightarrow> Some y | None \<Rightarrow> if P x then Some x else None)"
  by (induction xs) simp_all

lemma seed_seeds:
  "\<exists>st1. seed h st = (Inr (), st1) \<and> seeded st1
     \<and> length (products st1) = length (products st) + 2
     \<and> length (prices st1) = length (prices st) + 2"
proof (cases "find (\<lambda>u. user_email u = ''test@test.com'') (users st)")
  case None
  note U = None
  then have nu: "\<not> list_ex (\<lambda>u. user_email u = ''test@test.com'') (users st)"
    by (simp add: find_None_iff list_ex_iff)
  show ?thesis
  proof (cases "find (\<lambda>t. team_name t = ''Test Team'') (teams st)")
    case None
    with U nu show ?thesis
      by (simp add: seeded_def seed_def and_then_def run_statements_applied
          BOOTSTRAP_STATEMENTS_def select_user_def select_team_def select_membership_def
          returns_def throws_def insert_user_def insert_team_def insert_membership_def
          createStripeProducts_result find_snoc tables_after_bootstrap split: option.splits)
  next
    case (Some t)
    with U nu show ?thesis
      by (simp add: seeded_def seed_def and_then_def run_statements_applied
          BOOTSTRAP_STATEMENTS_def select_user_def select_team_def select_membership_def
          returns_def throws_def insert_user_def insert_team_def insert_membership_def
          createStripeProducts_result find_snoc tables_after_bootstrap split: option.splits)
  qed
next
  case (Some u)
  note U = Some
  show ?thesis
  proof (cases "find (\<lambda>t. team_name t = ''Test Team'') (teams st)")
    case None
    with U show ?thesis
      by (simp add: seeded_def seed_def and_then_def run_statements_applied
          BOOTSTRAP_STATEMENTS_def select_user_def select_team_def select_membership_def
          returns_def throws_def insert_user_def insert_team_def insert_membership_def
          createStripeProducts_result find_snoc tables_after_bootstrap split: option.splits)
  next
    case (Some t)
    with U show ?thesis
      by (simp add: seeded_def seed_def and_then_def run_statements_applied
          BOOTSTRAP_STATEMENTS_def select_user_def select_team_def select_membership_def
          returns_def throws_def insert_user_def insert_team_def insert_membership_def
          createStripeProducts_result find_snoc tables_after_bootstrap split: option.splits)
  qed
qed

lemma seed_empty_store:
  "seed h empty_store =
     (Inr (),
      \<lparr> applied = MIGRATION_STATEMENTS,
        users = [\<lparr> user_id = 1, user_email = ''test@test.com'', user_password_hash = h,
                   user_role = ''owner'' \<rparr>],
        teams = [\<lparr> team_id = 1, team_name = ''Test Team'' \<rparr>],
        teamMembers = [\<lparr> member_id = 1, member_user_id = 1, member_team_id = 1,
                         member_role = ''owner'' \<rparr>],
        products = [\<lparr> product_id = 1, product_name = ''Base'',
                       product_description = ''Base subscription plan'' \<rparr>,
                    \<lparr> product_id = 2, product_name = ''Plus'',
                       product_description = ''Plus subscription plan'' \<rparr>],
        prices = [\<lparr> price_id = 1, price_product = 1, unit_amount = 800, currency = ''usd'',
                     recurring_interval = ''month'', trial_period_days = 7 \<rparr>,
                  \<lparr> price_id = 2, price_product = 2, unit_amount = 1200, currency = ''usd'',
                     recurring_interval = ''month'', trial_period_days = 7 \<rparr>] \<rparr>)"
proof -
  show ?thesis
    by (simp add: seed_def and_then_def run_statements_applied empty_store_def
        tables_after_bootstrap[of _ "[]", simplified]
        BOOTSTRAP_STATEMENTS_def select_user_def select_team_def select_membership_def
        returns_def throws_def insert_user_def insert_team_def insert_membership_def
        createStripeProducts_result next_id_def)
qed

text \<open>
  Claim C9.  From any state of the store the seed routine succeeds, and a second run adds
  no user, no team and no membership to what the first run left, while it adds two more
  products and two more prices.  From the empty store the first run leaves exactly one user,
  one team and one membership, and two products with one price each; after the second run
  there are still one user, one team and one membership, and four products with one price
  each.
\<close>

theorem seed_twice:
  "(let st1 = snd (seed h st); st2 = snd (seed h st1) in
      fst (seed h st) = Inr () \<and> fst (seed h st1) = Inr ()
    \<and> users st2 = users st1 \<and> teams st2 = teams st1 \<and> teamMembers st2 = teamMembers st1
    \<and> length (products st2) = length (products st1) + 2
    \<and> length (prices st2) = length (prices st1) + 2)
   \<and> (let st1 = snd (seed h empty_store); st2 = snd (seed h st1) in
      length (users st1) = 1 \<and> length (teams st1) = 1 \<and> length (teamMembers st1) = 1
    \<and> length (products st1) = 2 \<and> length (prices st1) = 2 \<and> one_price_each st1
    \<and> length (users st2) = 1 \<and> length (teams st2) = 1 \<and> length (teamMembers st2) = 1
    \<and> length (products st2) = 4 \<and> length (prices st2) = 4 \<and> one_price_each st2)"
proof
  obtain st1 where s1: "seed h st = (Inr (), st1)" "seeded st1" using seed_seeds by blast
  from seed_when_seeded[OF s1(2), of h] s1(1)
  show "let st1 = snd (seed h st); st2 = snd (seed h st1) in
      fst (seed h st) = Inr () \<and> fst (seed h st1) = Inr ()
    \<and> users st2 = users st1 \<and> teams st2 = teams st1 \<and> teamMembers st2 = teamMembers st1
    \<and> length (products st2) = length (products st1) + 2
    \<and> length (prices st2) = length (prices st1) + 2"
    by (simp add: Let_def createStripeProducts_result)
next
  obtain st1 where s1: "seed h empty_store = (Inr (), st1)" "seeded st1" using seed_seeds by blast
  from seed_when_seeded[OF s1(2), of h] s1(1)[unfolded seed_empty_store]
  show "let st1 = snd (seed h empty_store); st2 = snd (seed h st1) in
      length (users st1) = 1 \<and> length (teams st1) = 1 \<and> length (teamMembers st1) = 1
    \<and> length (products st1) = 2 \<and> length (prices st1) = 2 \<and> one_price_each st1
    \<and> length (users st2) = 1 \<and> length (teams st2) = 1 \<and> length (teamMembers st2) = 1
    \<and> length (products st2) = 4 \<and> length (prices st2) = 4 \<and> one_price_each st2"
    unfolding seed_empty_store
    by (auto simp add: Let_def createStripeProducts_result one_price_each_def next_id_def)
qed

section \<open>Properties of the account parsers and prompts\<close>

lemma addAccount_cases:
  assumes "addAccount i n accounts = Inr accounts'"
  shows "accounts' = accounts
    \<or> (\<exists>new. accounts' = accounts @ [new] \<and> is_account_id (account_id new)
          \<and> \<not> list_ex (\<lambda>a. account_id a = account_id new) accounts)"
proof (cases i)
  case None
  with assms show ?thesis by (simp add: addAccount_def)
next
  case (Some v)
  show ?thesis
  proof (cases "truthy v")
    case False
    with assms Some show ?thesis by (simp add: addAccount_def)
  next
    case True
    show ?thesis
    proof (cases v)
      case (JStr t)
      show ?thesis
      proof (cases "is_account_id (trim t)")
        case False
        with assms Some True JStr show ?thesis by (simp add: addAccount_def Let_def)
      next
        case valid: True
        show ?thesis
        proof (cases "list_ex (\<lambda>a. account_id a = trim t) accounts")
          case True
          with assms Some \<open>truthy v\<close> JStr valid show ?thesis
            by (simp add: addAccount_def Let_def split: sum.splits)
        next
          case False
          with assms Some \<open>truthy v\<close> JStr valid show ?thesis
            by (auto simp add: addAccount_def Let_def split: sum.splits)
        qed
      qed
    qed (use assms Some True in \<open>simp_all add: addAccount_def\<close>)
  qed
qed

lemma addAccount_valid:
  assumes "valid_ids accounts" "addAccount i n accounts = Inr accounts'"
  shows "valid_ids accounts'"
  using addAccount_cases[OF assms(2)] assms(1) by (auto simp add: valid_ids_def)

lemma add_candidates_valid:
  "valid_ids accounts \<Longrightarrow> add_candidates entries accounts = Inr accounts' \<Longrightarrow> valid_ids accounts'"
proof (induction entries arbitrary: accounts)
  case Nil
  then show ?case by simp
next
  case (Cons entry rest)
  from Cons.prems(2) obtain mid where
    m: "addAccount (nullish_or (get_prop entry ''id'') (Some JNull))
          (nullish_or (get_prop entry ''name'') (Some JNull)) accounts = Inr mid"
      "add_candidates rest mid = Inr accounts'"
    by (auto split: if_splits sum.splits)
  from Cons.IH[OF addAccount_valid[OF Cons.prems(1) m(1)] m(2)] show ?case .
qed

lemma add_from_json_valid:
  assumes "valid_ids accounts" "add_from_json data accounts = Inr accounts'"
  shows "valid_ids accounts'"
proof (cases "truthy data")
  case False
  with assms show ?thesis by (simp add: add_from_json_def)
next
  case True
  with assms(2) obtain mid where
    m: "addAccount (nullish_or (optional_prop (get_prop data ''account'') ''id'') (Some JNull))
          (nullish_or (optional_prop (get_prop data ''account'') ''name'') (Some JNull))
          accounts = Inr mid"
      "add_candidates
               (array_elements (get_prop data ''accounts'')
                @ (case get_prop data ''result'' of
                     None \<Rightarrow> []
                   | Some result \<Rightarrow>
                       if truthy result then array_elements (get_prop result ''accounts'')
                       else [])) mid = Inr accounts'"
    by (auto simp add: add_from_json_def split: sum.splits)
  from add_candidates_valid[OF addAccount_valid[OF assms(1) m(1)] m(2)] show ?thesis .
qed

lemma add_from_line_cases:
  assumes "add_from_line line accounts = Inr accounts'"
  shows "accounts' = accounts \<or> (\<exists>i n. addAccount i n accounts = Inr accounts')"
proof (cases "trim line = []")
  case True
  with assms show ?thesis by (simp add: add_from_line_def)
next
  case False
  note ne = False
  show ?thesis
  proof (cases "is_table_row (trim line)")
    case True
    with assms ne show ?thesis
      by (simp add: add_from_line_def Let_def split: list.splits if_splits) blast+
  next
    case False
    with assms ne show ?thesis
      by (simp add: add_from_line_def Let_def split: option.splits prod.splits) blast+
  qed
qed

lemma add_from_line_valid:
  "valid_ids accounts \<Longrightarrow> add_from_line line accounts = Inr accounts' \<Longrightarrow> valid_ids accounts'"
  using add_from_line_cases addAccount_valid by blast

lemma add_from_lines_valid:
  "valid_ids accounts \<Longrightarrow> add_from_lines ls accounts = Inr accounts' \<Longrightarrow> valid_ids accounts'"
proof (induction ls arbitrary: accounts)
  case Nil
  then show ?case by simp
next
  case (Cons l ls)
  from Cons.prems(2) obtain mid where m: "add_from_line l accounts = Inr mid"
    "add_from_lines ls mid = Inr accounts'" by (auto split: sum.splits)
  from Cons.IH[OF add_from_line_valid[OF Cons.prems(1) m(1)] m(2)] show ?case .
qed

lemma extractAccounts_valid:
  "extractAccounts raw = Inr accounts \<Longrightarrow> valid_ids accounts"
proof -
  assume a: "extractAccounts raw = Inr accounts"
  then obtain a1 where a1: "add_from_json (parseJsonFromOutput (stripAnsi raw)) [] = Inr a1"
    "add_from_lines (split_lines (stripAnsi raw)) a1 = Inr accounts"
    by (auto simp add: extractAccounts_def Let_def split: sum.splits)
  have "valid_ids []" by (simp add: valid_ids_def)
  from add_from_json_valid[OF this a1(1)] add_from_lines_valid[OF _ a1(2)] show ?thesis by blast
qed

lemma promptForAccountId_valid:
  "promptForAccountId answers = Some (a, rest) \<Longrightarrow> is_account_id (account_id a)"
proof (induction answers)
  case Nil
  then show ?case by simp
next
  case (Cons ans answers)
  show ?case
  proof (cases "is_account_id (trim (trim ans))")
    case True
    with Cons.prems show ?thesis
      by (auto simp add: Let_def split: option.splits)
  next
    case False
    with Cons show ?thesis by (simp add: Let_def)
  qed
qed

lemma select_account_valid:
  "valid_ids detected \<Longrightarrow> select_account detected answers = Some (a, rest)
     \<Longrightarrow> is_account_id (account_id a)"
proof (induction answers)
  case Nil
  then show ?case by simp
next
  case (Cons ans answers)
  show ?case
  proof (cases "trim (trim ans) = []")
    case True
    with Cons.prems show ?thesis
      by (auto simp add: valid_ids_def split: list.splits)
  next
    case False
    note ne = False
    show ?thesis
    proof (cases "case parseInt10 (trim (trim ans)) of None \<Rightarrow> None
               | Some i \<Rightarrow> if 1 \<le> i \<and> i \<le> int (length detected) then Some (nat (i - 1)) else None")
      case (Some k)
      then have "k < length detected" by (auto split: option.splits if_splits)
      moreover from Cons.prems(2) ne Some have "a = detected ! k" by (simp add: Let_def)
      ultimately show ?thesis using Cons.prems(1) by (simp add: valid_ids_def list_all_length)
    next
      case None
      note np = None
      show ?thesis
      proof (cases "is_account_id (trim (trim ans))")
        case True
        with Cons.prems(2) ne np show ?thesis
          by (auto simp add: Let_def split: option.splits)
      next
        case False
        with Cons ne np show ?thesis by (simp add: Let_def)
      qed
    qed
  qed
qed

text \<open>
  Claim C6, as amended.  Every \<open>AccountInfo\<close> that \<open>extractAccounts\<close> returns, that
  \<open>promptForAccountId\<close> returns, and that \<open>chooseCloudflareAccount\<close> returns when the detected
  accounts it is given have such ids, has an id of exactly 32 hexadecimal characters, of
  either case: the id is tested against \<open>/^[a-f0-9]{32}$/i\<close> and stored as it was written.
\<close>

theorem account_ids_are_32_hex:
  "(extractAccounts raw = Inr accounts \<longrightarrow> valid_ids accounts)
   \<and> (promptForAccountId answers = Some (a, rest) \<longrightarrow> is_account_id (account_id a))
   \<and> (valid_ids detected \<and> chooseCloudflareAccount detected answers = Some (a, rest)
        \<longrightarrow> is_account_id (account_id a))"
proof (intro conjI impI)
  assume "extractAccounts raw = Inr accounts"
  then show "valid_ids accounts" by (rule extractAccounts_valid)
next
  assume "promptForAccountId answers = Some (a, rest)"
  then show "is_account_id (account_id a)" by (rule promptForAccountId_valid)
next
  assume "valid_ids detected \<and> chooseCloudflareAccount detected answers = Some (a, rest)"
  then show "is_account_id (account_id a)"
    using promptForAccountId_valid select_account_valid
    by (auto simp add: chooseCloudflareAccount_def split: if_splits)
qed

text \<open>
  The claim as stated fails: an id written with upper-case digits passes the test, which
  ignores case, and is returned unchanged.
\<close>

theorem account_id_uppercase_counterexample:
  "extractAccounts (lit ''Account ID: 0123456789ABCDEF0123456789ABCDEF'')
     = Inr [\<lparr> account_id = lit ''0123456789ABCDEF0123456789ABCDEF'', account_name = None \<rparr>]
   \<and> promptForAccountId [lit ''0123456789ABCDEF0123456789ABCDEF'', lit ''main'']
     = Some (\<lparr> account_id = lit ''0123456789ABCDEF0123456789ABCDEF'',
               account_name = Some (lit ''main'') \<rparr>, [])
   \<and> \<not> is_lowercase_account_id (lit ''0123456789ABCDEF0123456789ABCDEF'')"
  by (simp add: json_eval accounts_eval char_class_defs lit_Nil lit_Cons question_def
      or_undefined_def is_lowercase_account_id_def)

theorem account_ids_are_32_hex_witness:
  "extractAccounts (lit ''Account ID: 0123456789abcdef0123456789abcdef'')
     = Inr [\<lparr> account_id = lit ''0123456789abcdef0123456789abcdef'', account_name = None \<rparr>]
   \<and> valid_ids [\<lparr> account_id = lit ''0123456789abcdef0123456789abcdef'', account_name = None \<rparr>]
   \<and> promptForAccountId [lit ''not an id'', lit '' 0123456789abcdef0123456789ABCDEF '', []]
     = Some (\<lparr> account_id = lit ''0123456789abcdef0123456789ABCDEF'', account_name = None \<rparr>, [])
   \<and> is_account_id (lit ''0123456789abcdef0123456789ABCDEF'')
   \<and> chooseCloudflareAccount
        [\<lparr> account_id = lit ''0123456789abcdef0123456789abcdef'', account_name = None \<rparr>]
        [lit ''7'', lit ''1'']
     = Some (\<lparr> account_id = lit ''0123456789abcdef0123456789abcdef'', account_name = None \<rparr>, [])
   \<and> is_account_id (lit ''0123456789abcdef0123456789abcdef'')"
proof -
  note T = account_ids_are_32_hex
  have e1: "extractAccounts (lit ''Account ID: 0123456789abcdef0123456789abcdef'')
     = Inr [\<lparr> account_id = lit ''0123456789abcdef0123456789abcdef'', account_name = None \<rparr>]"
    by (simp add: json_eval accounts_eval char_class_defs lit_Nil lit_Cons)
  from T[where ?raw = "lit ''Account ID: 0123456789abcdef0123456789abcdef''"
      and ?accounts = "[\<lparr> account_id = lit ''0123456789abcdef0123456789abcdef'',
                          account_name = None \<rparr>]"] e1
  have v1: "valid_ids [\<lparr> account_id = lit ''0123456789abcdef0123456789abcdef'',
                         account_name = None \<rparr>]"
    by blast
  have e2: "promptForAccountId
      [lit ''not an id'', lit '' 0123456789abcdef0123456789ABCDEF '', []]
     = Some (\<lparr> account_id = lit ''0123456789abcdef0123456789ABCDEF'', account_name = None \<rparr>, [])"
    by (simp add: trim_def is_account_id_def char_class_defs lit_Nil lit_Cons question_def
        or_undefined_def)
  from T[where ?answers = "[lit ''not an id'', lit '' 0123456789abcdef0123456789ABCDEF '', []]"
      and ?a = "\<lparr> account_id = lit ''0123456789abcdef0123456789ABCDEF'', account_name = None \<rparr>"
      and ?rest = "[]"] e2
  have v2: "is_account_id (lit ''0123456789abcdef0123456789ABCDEF'')" by simp
  have e3: "chooseCloudflareAccount
        [\<lparr> account_id = lit ''0123456789abcdef0123456789abcdef'', account_name = None \<rparr>]
        [lit ''7'', lit ''1'']
     = Some (\<lparr> account_id = lit ''0123456789abcdef0123456789abcdef'', account_name = None \<rparr>, [])"
    by (simp add: chooseCloudflareAccount_def trim_def is_account_id_def char_class_defs
        lit_Nil lit_Cons question_def parseInt10_def digits_value_def Let_def)
  from T[where ?detected = "[\<lparr> account_id = lit ''0123456789abcdef0123456789abcdef'',
                          account_name = None \<rparr>]"
      and ?answers = "[lit ''7'', lit ''1'']"
      and ?a = "\<lparr> account_id = lit ''0123456789abcdef0123456789abcdef'', account_name = None \<rparr>"
      and ?rest = "[]"] v1 e3
  have v3: "is_account_id (lit ''0123456789abcdef0123456789abcdef'')" by simp
  from e1 v1 e2 v2 e3 v3 show ?thesis by blast
qed

text \<open>
  Claim C3.  The claim holds for ids that are strings; the code does not reach it for a
  structured candidate whose id is another kind of value.  A non-zero number passes the test
  \<open>!id\<close>, and \<open>id.trim()\<close> then throws, so the whole extraction fails instead of skipping the
  candidate; an entry \<open>null\<close> of the list \<open>accounts\<close> throws at \<open>entry.id\<close>.
\<close>

theorem extractAccounts_non_string_id_throws:
  \<open>extractAccounts (lit ''{"account":{"id":12345}}'')
     = Inl (TypeError ''id.trim is not a function'')
   \<and> extractAccounts (lit ''{"accounts":[null]}'')
     = Inl (TypeError ''Cannot read properties of null'')\<close>
  by (simp add: json_eval accounts_eval char_class_defs lit_Nil lit_Cons)

text \<open>
  Claim C4.  A run of 33 hexadecimal characters after \<open>account id:\<close> yields an account whose
  id is its first 32 characters: the pattern of the colon form ends with the group, so it
  matches a prefix of the run, and the anchored test in \<open>addAccount\<close> sees only the group.
  The same run yields nothing in the inline form and in a table row, and a run of 31
  characters yields nothing in the colon form.
\<close>

theorem extractAccounts_colon_form_33_hex:
  "extractAccounts (lit ''Account ID: 0123456789abcdef0123456789abcdefa'')
     = Inr [\<lparr> account_id = lit ''0123456789abcdef0123456789abcdef'', account_name = None \<rparr>]
   \<and> extractAccounts (lit ''Acme (id: 0123456789abcdef0123456789abcdefa)'') = Inr []
   \<and> extractAccounts (lit ''| Acme | 0123456789abcdef0123456789abcdefa |'') = Inr []
   \<and> extractAccounts (lit ''Account ID: 0123456789abcdef0123456789abcde'') = Inr []"
  by (simp add: json_eval accounts_eval char_class_defs lit_Nil lit_Cons)

subsection \<open>The JSON parser always has enough fuel\<close>

text \<open>
  The parser is written with a recursion budget. A successful parse of a value, of the rest of
  an array or of the rest of an object always consumes at least one character, so a budget of
  twice the length of the text plus one is never used up: \<open>JSON_parse\<close> answers
  \<open>SyntaxError\<close> only for malformed text.
\<close>

lemma skip_ws_length: "length (skip_ws s) \<le> length s"
  by (simp add: skip_ws_def length_dropWhile_le)

lemma parse_string_body_shorter:
  "parse_string_body s = Some (str, r) \<Longrightarrow> length r < length s"
  by (induction s arbitrary: str r rule: parse_string_body.induct)
    (fastforce split: if_splits list.splits option.splits)+

lemma number_sign_length: "length (snd (number_sign s)) \<le> length s"
  by (simp add: number_sign_def split: list.splits)

lemma number_integer_shorter: "number_integer s = Some (ds, r) \<Longrightarrow> length r < length s"
  by (auto simp add: number_integer_def length_dropWhile_le less_Suc_eq_le
      split: list.splits if_splits)

lemma number_fraction_length: "number_fraction s = Some (ds, r) \<Longrightarrow> length r \<le> length s"
  by (auto simp add: number_fraction_def length_dropWhile_le le_SucI
      split: list.splits if_splits)

lemma number_exponent_length: "number_exponent s = Some (e, r) \<Longrightarrow> length r \<le> length s"
proof -
  assume a: "number_exponent s = Some (e, r)"
  show ?thesis
  proof (cases s)
    case Nil
    with a show ?thesis by (simp add: number_exponent_def)
  next
    case (Cons c cs)
    show ?thesis
    proof (cases "c = 101 \<or> c = 69")
      case False
      with a Cons show ?thesis by (simp add: number_exponent_def)
    next
      case True
      define ds where "ds = (if cs \<noteq> [] \<and> (hd cs = 45 \<or> hd cs = 43) then tl cs else cs)"
      from a Cons True have "r = dropWhile is_digit ds"
        by (auto simp add: number_exponent_def Let_def ds_def split: if_splits)
      moreover have "length ds \<le> length cs" by (simp add: ds_def)
      moreover have "length (dropWhile is_digit ds) \<le> length ds" by (rule length_dropWhile_le)
      ultimately show ?thesis using Cons by simp
    qed
  qed
qed

lemma parse_number_shorter:
  assumes "parse_number s = Some (v, r)"
  shows "length r < length s"
proof -
  from assms obtain ds s2 fs s3 e where
    p: "number_integer (snd (number_sign s)) = Some (ds, s2)"
       "number_fraction s2 = Some (fs, s3)" "number_exponent s3 = Some (e, r)"
    by (auto simp add: parse_number_def split: option.splits)
  from number_integer_shorter[OF p(1)] number_sign_length[of s]
    number_fraction_length[OF p(2)] number_exponent_length[OF p(3)]
  show ?thesis by simp
qed

lemma skip_ws_Cons: "skip_ws s = c # cs \<Longrightarrow> length cs < length s"
  using skip_ws_length [of s] by simp

lemma parse_shorter:
  "(\<forall>s v r. parse_value n s = Parsed v r \<longrightarrow> length r < length s) \<and>
   (\<forall>s vs r. parse_elements n s = Parsed vs r \<longrightarrow> length r < length s) \<and>
   (\<forall>s ms r. parse_members n s = Parsed ms r \<longrightarrow> length r < length s)"
proof (induction n)
  case 0
  show ?case by simp
next
  case (Suc n)
  have v: "length r < length s" if "parse_value (Suc n) s = Parsed v r" for s v r
  proof (cases "skip_ws s")
    case Nil
    with that show ?thesis by simp
  next
    case (Cons c cs)
    note len = skip_ws_Cons [OF Cons]
    consider (obj) "c = 123" | (arr) "c \<noteq> 123" "c = 91" | (str) "c \<noteq> 123" "c \<noteq> 91" "c = 34"
      | (other) "c \<noteq> 123" "c \<noteq> 91" "c \<noteq> 34" by blast
    then show ?thesis
    proof cases
      case obj
      show ?thesis
      proof (cases "skip_ws cs")
        case Nil
        with that Cons obj show ?thesis by simp
      next
        case inner: (Cons d r0)
        show ?thesis
        proof (cases "d = 125")
          case True
          with that Cons obj inner have "r = r0" by simp
          with skip_ws_Cons [OF inner] len show ?thesis by simp
        next
          case False
          with that Cons obj inner obtain ms where "parse_members n cs = Parsed ms r"
            by (auto split: parsed.splits)
          with Suc.IH have "length r < length cs" by blast
          with len show ?thesis by simp
        qed
      qed
    next
      case arr
      show ?thesis
      proof (cases "skip_ws cs")
        case Nil
        with that Cons arr show ?thesis by simp
      next
        case inner: (Cons d r0)
        show ?thesis
        proof (cases "d = 93")
          case True
          with that Cons arr inner have "r = r0" by simp
          with skip_ws_Cons [OF inner] len show ?thesis by simp
        next
          case False
          with that Cons arr inner obtain vs where "parse_elements n cs = Parsed vs r"
            by (auto split: parsed.splits)
          with Suc.IH have "length r < length cs" by blast
          with len show ?thesis by simp
        qed
      qed
    next
      case str
      with that Cons obtain x where "parse_string_body cs = Some (x, r)"
        by (auto split: option.splits)
      from parse_string_body_shorter [OF this] len show ?thesis by simp
    next
      case other
      have "length r < length (c # cs)"
      proof (cases "parse_number (c # cs)")
        case None
        with that Cons other show ?thesis by (auto split: if_splits)
      next
        case (Some p)
        obtain w r1 where p: "p = (w, r1)" by (cases p)
        from parse_number_shorter [OF Some [unfolded p]] have "length r1 < length (c # cs)" .
        with that Cons other Some p show ?thesis by (auto split: if_splits)
      qed
      with len show ?thesis by simp
    qed
  qed
  have e: "length r < length s" if "parse_elements (Suc n) s = Parsed vs r" for s vs r
  proof -
    from that obtain w r1 where w: "parse_value n s = Parsed w r1"
      by (cases "parse_value n s") simp_all
    with Suc.IH have l1: "length r1 < length s" by blast
    from that w obtain d r2 where d: "skip_ws r1 = d # r2"
      by (cases "skip_ws r1") simp_all
    note l2 = skip_ws_Cons [OF d]
    show ?thesis
    proof (cases "d = 93")
      case True
      with that w d have "r = r2" by simp
      with l1 l2 show ?thesis by simp
    next
      case False
      with that w d obtain ws where "parse_elements n r2 = Parsed ws r"
        by (auto split: if_splits parsed.splits)
      with Suc.IH have "length r < length r2" by blast
      with l1 l2 show ?thesis by simp
    qed
  qed
  have m: "length r < length s" if "parse_members (Suc n) s = Parsed ms r" for s ms r
  proof -
    from that obtain q r0 where q: "skip_ws s = q # r0"
      by (cases "skip_ws s") simp_all
    note l0 = skip_ws_Cons [OF q]
    from that q have q34: "q = 34" by (auto split: if_splits)
    from that q q34 obtain key r1 where k: "parse_string_body r0 = Some (key, r1)"
      by (cases "parse_string_body r0") auto
    note l1 = parse_string_body_shorter [OF k]
    from that q q34 k obtain colon r2 where c: "skip_ws r1 = colon # r2"
      by (cases "skip_ws r1") simp_all
    note l2 = skip_ws_Cons [OF c]
    from that q q34 k c have c58: "colon = 58" by (auto split: if_splits)
    from that q q34 k c c58 obtain w r3 where w: "parse_value n r2 = Parsed w r3"
      by (cases "parse_value n r2") simp_all
    with Suc.IH have l3: "length r3 < length r2" by blast
    from that q q34 k c c58 w obtain d r4 where d: "skip_ws r3 = d # r4"
      by (cases "skip_ws r3") simp_all
    note l4 = skip_ws_Cons [OF d]
    show ?thesis
    proof (cases "d = 125")
      case True
      with that q q34 k c c58 w d have "r = r4" by simp
      with l0 l1 l2 l3 l4 show ?thesis by simp
    next
      case False
      with that q q34 k c c58 w d obtain ws where "parse_members n r4 = Parsed ws r"
        by (auto split: if_splits parsed.splits)
      with Suc.IH have "length r < length r4" by blast
      with l0 l1 l2 l3 l4 show ?thesis by simp
    qed
  qed
  from v e m show ?case by blast
qed

lemma parse_fuel:
  "(\<forall>n. 2 * length s + 1 \<le> n \<longrightarrow> parse_value n s \<noteq> OutOfFuel) \<and>
   (\<forall>n. 2 * length s + 2 \<le> n \<longrightarrow> parse_elements n s \<noteq> OutOfFuel) \<and>
   (\<forall>n. 2 * length s + 1 \<le> n \<longrightarrow> parse_members n s \<noteq> OutOfFuel)"
proof (induction "length s" arbitrary: s rule: less_induct)
  case less
  have ih_e: "parse_elements k t \<noteq> OutOfFuel" if "length t < length s" "2 * length s \<le> k" for t k
    using less [OF that(1)] that by simp
  have ih_m: "parse_members k t \<noteq> OutOfFuel" if "length t < length s" "2 * length s \<le> k" for t k
    using less [OF that(1)] that by simp
  have ih_v: "parse_value k t \<noteq> OutOfFuel" if "length t < length s" "2 * length s \<le> k" for t k
    using less [OF that(1)] that by simp
  have v: "parse_value n s \<noteq> OutOfFuel" if "2 * length s + 1 \<le> n" for n
  proof -
    from that obtain k where n: "n = Suc k" and k: "2 * length s \<le> k"
      by (cases n) simp_all
    show ?thesis
    proof (cases "skip_ws s")
      case Nil
      then show ?thesis by (simp add: n)
    next
      case (Cons c cs)
      note len = skip_ws_Cons [OF Cons]
      from ih_e [OF len k] ih_m [OF len k] Cons show ?thesis
        by (simp add: n split: list.splits parsed.splits option.splits)
    qed
  qed
  have e: "parse_elements n s \<noteq> OutOfFuel" if "2 * length s + 2 \<le> n" for n
  proof -
    from that obtain k where n: "n = Suc k" and k: "2 * length s + 1 \<le> k"
      by (cases n) simp_all
    show ?thesis
    proof (cases "parse_value k s")
      case OutOfFuel
      with v [OF k] show ?thesis by simp
    next
      case Malformed
      then show ?thesis by (simp add: n)
    next
      case (Parsed w r)
      with parse_shorter [of k] have l1: "length r < length s" by blast
      show ?thesis
      proof (cases "skip_ws r")
        case Nil
        with Parsed show ?thesis by (simp add: n)
      next
        case (Cons d r')
        from skip_ws_Cons [OF Cons] l1 have "length r' < length s" by simp
        from ih_e [OF this] k have "parse_elements k r' \<noteq> OutOfFuel" by simp
        with Parsed Cons show ?thesis by (simp add: n split: parsed.splits)
      qed
    qed
  qed
  have m: "parse_members n s \<noteq> OutOfFuel" if "2 * length s + 1 \<le> n" for n
  proof -
    from that obtain k where n: "n = Suc k" and k: "2 * length s \<le> k"
      by (cases n) simp_all
    show ?thesis
    proof (cases "skip_ws s")
      case Nil
      then show ?thesis by (simp add: n)
    next
      case q: (Cons q r0)
      note l0 = skip_ws_Cons [OF q]
      show ?thesis
      proof (cases "parse_string_body r0")
        case None
        with q show ?thesis by (simp add: n)
      next
        case (Some p)
        obtain key r1 where p: "p = (key, r1)" by (cases p)
        note l1 = parse_string_body_shorter [OF Some [unfolded p]]
        show ?thesis
        proof (cases "skip_ws r1")
          case Nil
          with q Some p show ?thesis by (simp add: n)
        next
          case c: (Cons colon r2)
          note l2 = skip_ws_Cons [OF c]
          from l0 l1 l2 have "length r2 < length s" by simp
          note vk = ih_v [OF this k]
          show ?thesis
          proof (cases "parse_value k r2")
            case OutOfFuel
            with vk show ?thesis by simp
          next
            case Malformed
            with q Some p c show ?thesis by (simp add: n)
          next
            case (Parsed w r3)
            with parse_shorter [of k] have l3: "length r3 < length r2" by blast
            show ?thesis
            proof (cases "skip_ws r3")
              case Nil
              with q Some p c Parsed show ?thesis by (simp add: n)
            next
              case d: (Cons d r4)
              from skip_ws_Cons [OF d] l0 l1 l2 l3 have "length r4 < length s" by simp
              from ih_m [OF this k] q Some p c Parsed d show ?thesis
                by (simp add: n split: parsed.splits)
            qed
          qed
        qed
      qed
    qed
  qed
  from v e m show ?case by blast
qed

lemma JSON_parse_fuel: "parse_value (Suc (length s + length s)) s \<noteq> OutOfFuel"
proof -
  have "2 * length s + 1 \<le> Suc (length s + length s)" by simp
  with parse_fuel [of s] show ?thesis by blast
qed

section \<open>Properties of the text extraction\<close>

lemma indexOf_None_iff: "indexOf s c = None \<longleftrightarrow> c \<notin> set s"
  by (induction s) auto

lemma indexOf_less: "indexOf s c = Some i \<Longrightarrow> i < length s"
  by (induction s arbitrary: i) (auto split: if_splits)

lemma indexOf_append:
  "indexOf (xs @ ys) c =
     (case indexOf xs c of
        Some i \<Rightarrow> Some i
      | None \<Rightarrow> map_option (\<lambda>i. length xs + i) (indexOf ys c))"
proof (induction xs)
  case Nil
  show ?case by (cases "indexOf ys c") simp_all
next
  case (Cons a xs)
  then show ?case by (cases "indexOf xs c"; cases "indexOf ys c") simp_all
qed

lemma indexOf_first: "c \<notin> set pre \<Longrightarrow> indexOf (pre @ c # rest) c = Some (length pre)"
proof -
  assume "c \<notin> set pre"
  then have "indexOf pre c = None" by (simp add: indexOf_None_iff)
  then show ?thesis by (simp add: indexOf_append)
qed

lemma lastIndexOf_last:
  assumes "c \<notin> set post"
  shows "lastIndexOf (pre @ c # post) c = Some (length pre)"
proof -
  have "indexOf (rev post @ c # rev pre) c = Some (length post)"
    using indexOf_first[of c "rev post" "rev pre"] assms by simp
  then show ?thesis by (simp add: lastIndexOf_def)
qed

lemma lastIndexOf_before:
  assumes "c \<notin> set post" "lastIndexOf (pre @ post) c = Some j"
  shows "j < length pre"
proof -
  have n: "indexOf (rev post) c = None" using assms(1) by (simp add: indexOf_None_iff)
  from assms(2) obtain i where i: "indexOf (rev post @ rev pre) c = Some i"
    "j = length (pre @ post) - 1 - i" by (auto simp add: lastIndexOf_def)
  from i(1) n obtain i' where i': "indexOf (rev pre) c = Some i'" "i = length post + i'"
    by (auto simp add: indexOf_append)
  from indexOf_less[OF i'(1)] i(2) i'(2) show ?thesis by simp
qed

lemma indexOf_after:
  assumes "c \<notin> set pre" "indexOf (pre @ post) c = Some i"
  shows "length pre \<le> i"
proof -
  have "indexOf pre c = None" using assms(1) by (simp add: indexOf_None_iff)
  with assms(2) show ?thesis by (auto simp add: indexOf_append)
qed

lemma stripAnsi_no_escape: "27 \<notin> set s \<Longrightarrow> stripAnsi s = s"
proof (induction s)
  case Nil
  then show ?case by simp
next
  case (Cons c cs)
  then have "ansi_at (c # cs) = None" by (simp add: ansi_at_def starts_with_def)
  with Cons show ?case by simp
qed

lemma parseJsonFromOutput_slice:
  assumes "stripAnsi raw = pre @ [123] @ mid @ [125] @ post" "123 \<notin> set pre" "125 \<notin> set post"
  shows "parseJsonFromOutput raw =
     (case JSON_parse ([123] @ mid @ [125]) of Inr v \<Rightarrow> v | Inl e \<Rightarrow> JNull)"
proof -
  have ne: "raw \<noteq> []" using assms(1) by auto
  have f: "indexOf (stripAnsi raw) 123 = Some (length pre)"
    unfolding assms(1) using indexOf_first[OF assms(2)] by simp
  have "stripAnsi raw = (pre @ [123] @ mid) @ 125 # post" using assms(1) by simp
  then have l: "lastIndexOf (stripAnsi raw) 125 = Some (length pre + 1 + length mid)"
    using lastIndexOf_last[OF assms(3), of "pre @ [123] @ mid"] by simp
  have s: "slice (stripAnsi raw) (length pre) (length pre + 1 + length mid + 1)
      = [123] @ mid @ [125]"
    unfolding assms(1) by (simp add: slice_def)
  show ?thesis
    using ne f l s by (simp add: parseJsonFromOutput_def Let_def)
qed

text \<open>
  Claim C2, as amended.  \<open>parseJsonFromOutput\<close> parses what lies between the first \<open>{\<close> and
  the last \<open>}\<close> of the text with the escape sequences removed.  When that text is an object
  text between a prefix that holds no \<open>{\<close> and a suffix that holds no \<open>}\<close>, the object is
  returned if it parses and \<open>null\<close> if it does not.  When the text splits into a part with no
  \<open>{\<close> followed by a part with no \<open>}\<close>, so that there is no pair of braces or the last \<open>}\<close>
  comes before the first \<open>{\<close>, the result is \<open>null\<close>.  A text without the escape character
  is left as it is by \<open>stripAnsi\<close>.  The function has no way to throw: the error of
  \<open>JSON.parse\<close> is turned into \<open>null\<close>, and every other step is total.
\<close>

theorem parseJsonFromOutput_recovers:
  "(stripAnsi raw = pre @ [123] @ mid @ [125] @ post \<and> 123 \<notin> set pre \<and> 125 \<notin> set post
      \<and> JSON_parse ([123] @ mid @ [125]) = Inr v \<longrightarrow> parseJsonFromOutput raw = v)
   \<and> (stripAnsi raw = pre @ [123] @ mid @ [125] @ post \<and> 123 \<notin> set pre \<and> 125 \<notin> set post
      \<and> JSON_parse ([123] @ mid @ [125]) = Inl e \<longrightarrow> parseJsonFromOutput raw = JNull)
   \<and> (stripAnsi raw = pre @ post \<and> 123 \<notin> set pre \<and> 125 \<notin> set post
      \<longrightarrow> parseJsonFromOutput raw = JNull)
   \<and> (27 \<notin> set raw \<longrightarrow> stripAnsi raw = raw)"
proof (intro conjI impI)
  assume "stripAnsi raw = pre @ [123] @ mid @ [125] @ post \<and> 123 \<notin> set pre \<and> 125 \<notin> set post
      \<and> JSON_parse ([123] @ mid @ [125]) = Inr v"
  then show "parseJsonFromOutput raw = v" using parseJsonFromOutput_slice by simp
next
  assume "stripAnsi raw = pre @ [123] @ mid @ [125] @ post \<and> 123 \<notin> set pre \<and> 125 \<notin> set post
      \<and> JSON_parse ([123] @ mid @ [125]) = Inl e"
  then show "parseJsonFromOutput raw = JNull" using parseJsonFromOutput_slice by simp
next
  assume a: "stripAnsi raw = pre @ post \<and> 123 \<notin> set pre \<and> 125 \<notin> set post"
  show "parseJsonFromOutput raw = JNull"
  proof (cases "indexOf (stripAnsi raw) 123")
    case None
    then show ?thesis by (simp add: parseJsonFromOutput_def Let_def)
  next
    case (Some i)
    note I = Some
    show ?thesis
    proof (cases "lastIndexOf (stripAnsi raw) 125")
      case None
      with I show ?thesis by (simp add: parseJsonFromOutput_def Let_def)
    next
      case (Some j)
      from a I have "length pre \<le> i" using indexOf_after[of 123 pre post i] by simp
      moreover from a Some have "j < length pre" using lastIndexOf_before[of 125 post pre j] by simp
      ultimately have "j \<le> i" by simp
      with I Some show ?thesis by (simp add: parseJsonFromOutput_def Let_def)
    qed
  qed
next
  assume "27 \<notin> set raw"
  then show "stripAnsi raw = raw" by (rule stripAnsi_no_escape)
qed

text \<open>
  The claim as stated fails: the text below holds one well-formed object followed by prose
  that contains a closing brace (or preceded by prose that contains braces), and the result
  is \<open>null\<close>, because the slice reaches to the last \<open>}\<close> of the whole text.
\<close>

theorem parseJsonFromOutput_brace_in_prose_counterexample:
  \<open>JSON_parse (lit ''{"a":1}'') = Inr (JObj [(lit ''a'', JNum 1 0)])
   \<and> parseJsonFromOutput (lit ''{"a":1} }'') = JNull
   \<and> parseJsonFromOutput (lit ''try {x}: {"a":1}'') = JNull\<close>
  by (simp add: json_eval char_class_defs lit_Nil lit_Cons)

theorem parseJsonFromOutput_recovers_witness:
  \<open>stripAnsi ([27] @ lit ''[32m ok: {"a":1} '' @ [27] @ lit ''[0m done'')
     = lit '' ok: '' @ [123] @ lit ''"a":1'' @ [125] @ lit ''  done''
   \<and> 123 \<notin> set (lit '' ok: '') \<and> 125 \<notin> set (lit ''  done'')
   \<and> JSON_parse ([123] @ lit ''"a":1'' @ [125]) = Inr (JObj [(lit ''a'', JNum 1 0)])
   \<and> parseJsonFromOutput ([27] @ lit ''[32m ok: {"a":1} '' @ [27] @ lit ''[0m done'')
     = JObj [(lit ''a'', JNum 1 0)]
   \<and> JSON_parse ([123] @ lit ''not json'' @ [125]) = Inl (ScriptError ''SyntaxError'')
   \<and> parseJsonFromOutput (lit ''x {not json} y'') = JNull
   \<and> parseJsonFromOutput (lit ''} then {'') = JNull
   \<and> 27 \<notin> set (lit ''plain'')
   \<and> stripAnsi (lit ''plain'') = lit ''plain''\<close>
proof -
  note T = parseJsonFromOutput_recovers
  have a1: \<open>stripAnsi ([27] @ lit ''[32m ok: {"a":1} '' @ [27] @ lit ''[0m done'')
     = lit '' ok: '' @ [123] @ lit ''"a":1'' @ [125] @ lit ''  done''\<close>
    by (simp add: json_eval char_class_defs lit_Nil lit_Cons)
  have a2: \<open>123 \<notin> set (lit '' ok: '') \<and> 125 \<notin> set (lit ''  done'')\<close>
    by (simp add: lit_Nil lit_Cons)
  have a3: \<open>JSON_parse ([123] @ lit ''"a":1'' @ [125]) = Inr (JObj [(lit ''a'', JNum 1 0)])\<close>
    by (simp add: json_eval char_class_defs lit_Nil lit_Cons)
  from T[where ?raw = \<open>[27] @ lit ''[32m ok: {"a":1} '' @ [27] @ lit ''[0m done''\<close>
      and ?pre = \<open>lit '' ok: ''\<close> and ?mid = \<open>lit ''"a":1''\<close> and ?post = \<open>lit ''  done''\<close>
      and ?v = \<open>JObj [(lit ''a'', JNum 1 0)]\<close>] a1 a2 a3
  have c1: \<open>parseJsonFromOutput ([27] @ lit ''[32m ok: {"a":1} '' @ [27] @ lit ''[0m done'')
     = JObj [(lit ''a'', JNum 1 0)]\<close>
    by blast
  have b1: \<open>stripAnsi (lit ''x {not json} y'') = lit ''x '' @ [123] @ lit ''not json'' @ [125] @ lit '' y''
     \<and> 123 \<notin> set (lit ''x '') \<and> 125 \<notin> set (lit '' y'')\<close>
    by (simp add: json_eval char_class_defs lit_Nil lit_Cons)
  have b2: \<open>JSON_parse ([123] @ lit ''not json'' @ [125]) = Inl (ScriptError ''SyntaxError'')\<close>
    by (simp add: json_eval char_class_defs lit_Nil lit_Cons)
  from T[where ?raw = \<open>lit ''x {not json} y''\<close>
      and ?pre = \<open>lit ''x ''\<close> and ?mid = \<open>lit ''not json''\<close> and ?post = \<open>lit '' y''\<close>
      and ?e = \<open>ScriptError ''SyntaxError''\<close>] b1 b2
  have c2: \<open>parseJsonFromOutput (lit ''x {not json} y'') = JNull\<close>
    by blast
  have d1: \<open>stripAnsi (lit ''} then {'') = lit ''} then '' @ lit ''{''
     \<and> 123 \<notin> set (lit ''} then '') \<and> 125 \<notin> set (lit ''{'')\<close>
    by (simp add: json_eval char_class_defs lit_Nil lit_Cons)
  from T[where ?raw = \<open>lit ''} then {''\<close> and ?pre = \<open>lit ''} then ''\<close> and ?post = \<open>lit ''{''\<close>] d1
  have c3: \<open>parseJsonFromOutput (lit ''} then {'') = JNull\<close>
    by blast
  have e1: \<open>27 \<notin> set (lit ''plain'')\<close> by (simp add: lit_Nil lit_Cons)
  from T[where ?raw = \<open>lit ''plain''\<close>] e1
  have c4: \<open>stripAnsi (lit ''plain'') = lit ''plain''\<close> by blast
  from a1 a2 a3 c1 b2 c2 c3 e1 c4 show ?thesis by blast
qed

section \<open>Properties of \<open>parseD1CreateResult\<close>\<close>

lemma present_nullish_or:
  "present (nullish_or a b) = (case present a of Some v \<Rightarrow> Some v | None \<Rightarrow> present b)"
  by (cases "(a, b)" rule: nullish_or.cases) simp_all

lemma first_present_Cons:
  "first_present (k # ks) v =
     (case present (get_prop v k) of Some x \<Rightarrow> Some x | None \<Rightarrow> first_present ks v)"
  by (cases "get_prop v k" rule: present.cases) simp_all

lemma present_Some_truthy: "present (Some i) = None \<Longrightarrow> \<not> truthy i"
  by (cases i) simp_all

lemma present_Some: "present x = Some v \<Longrightarrow> x = Some v"
  by (cases x rule: present.cases) simp_all

lemma nullish_default:
  "nullish_or x (Some d) = Some (case present x of Some n \<Rightarrow> n | None \<Rightarrow> d)"
  by (cases x rule: present.cases) simp_all

lemma structured_case:
  "(case x of None \<Rightarrow> None
    | Some i \<Rightarrow> (case Some n of None \<Rightarrow> None
                 | Some m \<Rightarrow> if truthy i \<and> truthy m then Some (f i m) else None))
   = (case present x of None \<Rightarrow> None
      | Some i \<Rightarrow> if truthy i \<and> truthy n then Some (f i n) else None)"
  by (cases x rule: present.cases) simp_all

text \<open>
  Claim C5.  For every text and fallback name, \<open>parseD1CreateResult\<close> is the first success
  of three stages run on the text with the escape sequences removed, in this order: the
  structured stage (the parsed body or what it holds under \<open>result\<close>; the id under the first
  present of \<open>uuid\<close>, \<open>id\<close>, \<open>database_id\<close>, \<open>databaseId\<close>; the name under the first present of
  \<open>name\<close>, \<open>database_name\<close>, \<open>databaseName\<close>, else the fallback name), the quoted
  \<open>"database_id"\<close> stage and the bare UUID stage; and it returns \<open>null\<close> exactly when all
  three fail.
\<close>

theorem parseD1CreateResult_stages:
  "parseD1CreateResult raw fallbackName =
     first_success
       [structured_stage (stripAnsi raw) fallbackName,
        quoted_id_stage (stripAnsi raw) fallbackName,
        bare_uuid_stage (stripAnsi raw) fallbackName]
   \<and> (parseD1CreateResult raw fallbackName = None) =
       (structured_stage (stripAnsi raw) fallbackName = None
        \<and> quoted_id_stage (stripAnsi raw) fallbackName = None
        \<and> bare_uuid_stage (stripAnsi raw) fallbackName = None)"
proof -
  let ?clean = "stripAnsi raw"
  let ?data = "parseJsonFromOutput ?clean"
  define structured where "structured =
            (if truthy ?data then
               let payload =
                     (case nullish_or (get_prop ?data ''result'') (Some ?data) of
                        Some p \<Rightarrow> p
                      | None \<Rightarrow> ?data);
                   id_value =
                     nullish_or
                       (nullish_or
                          (nullish_or (get_prop payload ''uuid'') (get_prop payload ''id''))
                          (get_prop payload ''database_id''))
                       (get_prop payload ''databaseId'');
                   name_value =
                     nullish_or
                       (nullish_or
                          (nullish_or (get_prop payload ''name'')
                             (get_prop payload ''database_name''))
                          (get_prop payload ''databaseName''))
                       (Some (JStr fallbackName))
               in (case id_value of
                     None \<Rightarrow> None
                   | Some i \<Rightarrow>
                       (case name_value of
                          None \<Rightarrow> None
                        | Some n \<Rightarrow>
                            if truthy i \<and> truthy n
                            then Some \<lparr> result_id = i, result_name = n \<rparr>
                            else None))
             else None)"
  have payload: "(case nullish_or (get_prop d ''result'') (Some d) of Some p \<Rightarrow> p | None \<Rightarrow> d)
      = (case first_present [''result''] d of Some p \<Rightarrow> p | None \<Rightarrow> d)" for d
    by (cases "get_prop d ''result''" rule: present.cases) simp_all
  have ids: "present (nullish_or (nullish_or (nullish_or (get_prop p ''uuid'') (get_prop p ''id''))
                (get_prop p ''database_id'')) (get_prop p ''databaseId''))
      = first_present [''uuid'', ''id'', ''database_id'', ''databaseId''] p" for p
    by (simp add: present_nullish_or first_present_Cons del: first_present.simps(2)
        split: option.splits)
  have names: "nullish_or (nullish_or (nullish_or (get_prop p ''name'') (get_prop p ''database_name''))
                (get_prop p ''databaseName'')) (Some (JStr fallbackName))
      = Some (case first_present [''name'', ''database_name'', ''databaseName''] p of
                Some n \<Rightarrow> n | None \<Rightarrow> JStr fallbackName)" for p
  proof -
    have pn: "present (nullish_or (nullish_or (get_prop p ''name'') (get_prop p ''database_name''))
                (get_prop p ''databaseName''))
        = first_present [''name'', ''database_name'', ''databaseName''] p"
      by (simp add: present_nullish_or first_present_Cons del: first_present.simps(2)
          split: option.splits)
    show ?thesis unfolding nullish_default pn ..
  qed
  have s: "structured = structured_stage ?clean fallbackName"
    unfolding structured_def structured_stage_def Let_def payload names structured_case ids
    by (simp del: first_present.simps split: option.splits)
  have p: "parseD1CreateResult raw fallbackName =
      (case structured of
           Some result \<Rightarrow> Some result
         | None \<Rightarrow>
             (case search_first database_id_at ?clean of
                Some snippetId \<Rightarrow>
                  Some \<lparr> result_id = JStr snippetId,
                         result_name =
                           JStr (case search_first database_name_at ?clean of
                                   Some snippetName \<Rightarrow> snippetName
                                 | None \<Rightarrow> fallbackName) \<rparr>
              | None \<Rightarrow>
                  (case search_first uuid_at ?clean of
                     Some uuid \<Rightarrow>
                       Some \<lparr> result_id = JStr uuid,
                              result_name =
                                JStr (case (case search_first (name_phrase_at ''DB '') ?clean of
                                              Some m \<Rightarrow> Some m
                                            | None \<Rightarrow>
                                                search_first (name_phrase_at ''database '') ?clean) of
                                        Some matched_name \<Rightarrow> matched_name
                                      | None \<Rightarrow> fallbackName) \<rparr>
                   | None \<Rightarrow> None)))"
    unfolding parseD1CreateResult_def structured_def Let_def ..
  show ?thesis
    unfolding p s
    by (auto simp add: quoted_id_stage_def bare_uuid_stage_def simp del: first_present.simps
        split: option.splits)
qed

lemmas d1_eval = structured_stage_def quoted_id_stage_def bare_uuid_stage_def database_id_at_def
  database_name_at_def uuid_at_def is_uuid_def name_phrase_at_def starts_with_ci_def
  upper_of_def eq_ci_def

theorem parseD1CreateResult_stages_witness:
  \<open>parseD1CreateResult
       (lit ''{"result":{"uuid":"11111111-1111-1111-1111-111111111111","name":"foo"}}'')
       (lit ''fallback'')
     = Some \<lparr> result_id = JStr (lit ''11111111-1111-1111-1111-111111111111''),
              result_name = JStr (lit ''foo'') \<rparr>
   \<and> parseD1CreateResult (lit ''{"databaseId":"abc"} DB "mydb"'') (lit ''fallback'')
     = Some \<lparr> result_id = JStr (lit ''abc''), result_name = JStr (lit ''fallback'') \<rparr>
   \<and> parseD1CreateResult
       (lit ''"database_name": "prod", "database_id": "33333333-3333-3333-3333-333333333333"'')
       (lit ''fallback'')
     = Some \<lparr> result_id = JStr (lit ''33333333-3333-3333-3333-333333333333''),
              result_name = JStr (lit ''prod'') \<rparr>
   \<and> parseD1CreateResult (lit ''created DB "mydb" 22222222-2222-2222-2222-222222222222'')
       (lit ''fallback'')
     = Some \<lparr> result_id = JStr (lit ''22222222-2222-2222-2222-222222222222''),
              result_name = JStr (lit ''mydb'') \<rparr>
   \<and> parseD1CreateResult (lit ''no identifiers here'') (lit ''fallback'') = None\<close>
proof -
  note T = parseD1CreateResult_stages[THEN conjunct1]
  have c1: \<open>parseD1CreateResult
       (lit ''{"result":{"uuid":"11111111-1111-1111-1111-111111111111","name":"foo"}}'')
       (lit ''fallback'')
     = Some \<lparr> result_id = JStr (lit ''11111111-1111-1111-1111-111111111111''),
              result_name = JStr (lit ''foo'') \<rparr>\<close>
    unfolding T by (simp add: d1_eval json_eval char_class_defs lit_Nil lit_Cons)
  have c2: \<open>parseD1CreateResult (lit ''{"databaseId":"abc"} DB "mydb"'') (lit ''fallback'')
     = Some \<lparr> result_id = JStr (lit ''abc''), result_name = JStr (lit ''fallback'') \<rparr>\<close>
    unfolding T by (simp add: d1_eval json_eval char_class_defs lit_Nil lit_Cons)
  have c3: \<open>parseD1CreateResult
       (lit ''"database_name": "prod", "database_id": "33333333-3333-3333-3333-333333333333"'')
       (lit ''fallback'')
     = Some \<lparr> result_id = JStr (lit ''33333333-3333-3333-3333-333333333333''),
              result_name = JStr (lit ''prod'') \<rparr>\<close>
    unfolding T by (simp add: d1_eval json_eval char_class_defs lit_Nil lit_Cons)
  have c4: \<open>parseD1CreateResult (lit ''created DB "mydb" 22222222-2222-2222-2222-222222222222'')
       (lit ''fallback'')
     = Some \<lparr> result_id = JStr (lit ''22222222-2222-2222-2222-222222222222''),
              result_name = JStr (lit ''mydb'') \<rparr>\<close>
    unfolding T by (simp add: d1_eval json_eval char_class_defs lit_Nil lit_Cons)
  have c5: \<open>parseD1CreateResult (lit ''no identifiers here'') (lit ''fallback'') = None\<close>
    unfolding T by (simp add: d1_eval json_eval char_class_defs lit_Nil lit_Cons)
  from c1 c2 c3 c4 c5 show ?thesis by blast
qed

end
